theory Spec2Isabelle
  imports Complex_Main
begin

section \<open>Values, events and the host environment\<close>

text \<open>
  The program is one JavaScript file, \<^verbatim>\<open>src/index.js\<close>, with two functions: \<^verbatim>\<open>run\<close> and
  \<^verbatim>\<open>getImageInfo\<close>. It reads two inputs, parses a list of image mappings, validates them,
  and then runs \<^verbatim>\<open>docker pull\<close>, \<^verbatim>\<open>docker tag\<close>, \<^verbatim>\<open>docker push\<close> and two \<^verbatim>\<open>docker inspect\<close>
  calls for each of them.

  The values the program handles come out of \<^verbatim>\<open>JSON.parse\<close>, so an image mapping and each
  of its fields is an arbitrary JSON value. \<open>JUndefined\<close> is what reading an absent property
  gives. A number is represented by its numeric value: JSON has no \<^verbatim>\<open>NaN\<close>, and a literal
  too large for a double, which parses to an infinity, is not represented.
\<close>

datatype jsval =
    JUndefined
  | JNull
  | JBool bool
  | JNum rat
  | JStr string
  | JArr "jsval list"
  | JObj "(string \<times> jsval) list"

text \<open>JavaScript truthiness, as used by \<^verbatim>\<open>!image.source\<close> and \<^verbatim>\<open>if (architecture)\<close>.\<close>

fun truthy :: "jsval \<Rightarrow> bool" where
  "truthy JUndefined = False"
| "truthy JNull = False"
| "truthy (JBool b) = b"
| "truthy (JNum r) = (r \<noteq> 0)"
| "truthy (JStr s) = (s \<noteq> [])"
| "truthy (JArr xs) = True"
| "truthy (JObj kvs) = True"

text \<open>
  Reading a property \<^verbatim>\<open>v.k\<close>. On \<^verbatim>\<open>null\<close> and \<^verbatim>\<open>undefined\<close> the read throws a TypeError
  (the message is the one of V8, the engine of Node.js). On an object it is the value stored
  under the key (an object is the list of its own properties, each key once), on every
  other value \<^verbatim>\<open>undefined\<close>: the program only reads the keys
  \<^verbatim>\<open>source\<close>, \<^verbatim>\<open>destination\<close> and \<^verbatim>\<open>architecture\<close>, which no string, number, boolean or array
  has.
\<close>

fun prop_of :: "jsval \<Rightarrow> string \<Rightarrow> jsval" where
  "prop_of (JObj kvs) k = (case map_of kvs k of None \<Rightarrow> JUndefined | Some v \<Rightarrow> v)"
| "prop_of v k = JUndefined"

definition cannot_read :: "string \<Rightarrow> string \<Rightarrow> string" where
  "cannot_read what k =
     ''Cannot read properties of '' @ what @ '' (reading '' @ [CHR 0x27] @ k @ [CHR 0x27] @ '')''"

fun get_prop :: "jsval \<Rightarrow> string \<Rightarrow> string + jsval" where
  "get_prop JUndefined k = Inl (cannot_read ''undefined'' k)"
| "get_prop JNull k = Inl (cannot_read ''null'' k)"
| "get_prop v k = Inr (prop_of v k)"

datatype status = Success | Failed

record outcome =
  source :: jsval
  destination :: jsval
  digest :: string
  image_size :: string
  status :: status
  error :: "string option"

record image_info =
  info_digest :: string
  info_size :: string

text \<open>
  What the program calls and does not define: \<^verbatim>\<open>fs.readFileSync\<close>, \<^verbatim>\<open>JSON.parse\<close>, the docker
  command behind \<^verbatim>\<open>exec.exec\<close> and \<^verbatim>\<open>exec.getExecOutput\<close>, \<^verbatim>\<open>JSON.stringify\<close> of one
  outcome object, the decimal text of a number (\<^verbatim>\<open>Number.prototype.toString\<close>) and
  \<^verbatim>\<open>String.prototype.trim\<close>. A call that throws returns \<open>Inl\<close> of the error's message. The
  docker command answers from the argument lists of the calls made before it and of its
  own: \<open>Inl\<close> is a rejected call (a non-zero exit code, or an error before the process
  runs), \<open>Inr\<close> carries the standard output of a call that ended with exit code 0.
\<close>

record host =
  read_file :: "string \<Rightarrow> string + string"
  json_parse :: "string \<Rightarrow> string + jsval"
  docker :: "jsval list list \<Rightarrow> jsval list \<Rightarrow> string + string"
  stringify :: "outcome \<Rightarrow> string"
  number_toString :: "rat \<Rightarrow> string"
  trim :: "string \<Rightarrow> string"

text \<open>
  \<^verbatim>\<open>ToString\<close>: the conversion to a string that a template literal applies to each value
  it interpolates. An object with an own property \<^verbatim>\<open>toString\<close> has no callable \<^verbatim>\<open>toString\<close> (no JSON value is
  callable), and its \<^verbatim>\<open>valueOf\<close>, own or inherited, does not give a primitive: the conversion
  throws a TypeError (V8's message). Every other object prints as \<^verbatim>\<open>[object Object]\<close>. An
  array prints its elements separated by commas, \<^verbatim>\<open>null\<close> and \<^verbatim>\<open>undefined\<close> elements as
  nothing.
\<close>

definition not_primitive :: string where
  "not_primitive = ''Cannot convert object to primitive value''"

fun to_string :: "host \<Rightarrow> jsval \<Rightarrow> string + string"
  and array_join :: "host \<Rightarrow> jsval list \<Rightarrow> string + string"
  and element_string :: "host \<Rightarrow> jsval \<Rightarrow> string + string" where
  "to_string h JUndefined = Inr ''undefined''"
| "to_string h JNull = Inr ''null''"
| "to_string h (JBool b) = Inr (if b then ''true'' else ''false'')"
| "to_string h (JNum r) = Inr (number_toString h r)"
| "to_string h (JStr s) = Inr s"
| "to_string h (JArr xs) = array_join h xs"
| "to_string h (JObj kvs) =
     (case map_of kvs ''toString'' of
        None \<Rightarrow> Inr ''[object Object]''
      | Some v \<Rightarrow> Inl not_primitive)"
| "array_join h [] = Inr []"
| "array_join h [x] = element_string h x"
| "array_join h (x # y # ys) =
     (case element_string h x of
        Inl e \<Rightarrow> Inl e
      | Inr s \<Rightarrow>
          (case array_join h (y # ys) of
             Inl e \<Rightarrow> Inl e
           | Inr t \<Rightarrow> Inr (s @ '','' @ t)))"
| "element_string h JUndefined = Inr []"
| "element_string h JNull = Inr []"
| "element_string h v = to_string h v"

text \<open>
  The log lines (\<^verbatim>\<open>core.info\<close>, \<^verbatim>\<open>core.warning\<close>, \<^verbatim>\<open>core.error\<close>) are recorded by the statement
  that wrote them and the strings and numbers it interpolates. The outputs and the failure
  message of the run (\<^verbatim>\<open>core.setOutput\<close>, \<^verbatim>\<open>core.setFailed\<close>) are recorded as the strings the
  program builds.
\<close>

datatype log_msg =
    ReadingFile string
  | Starting nat
  | Processing nat nat string string string
  | Pulling string string
  | Tagging string
  | Pushing string
  | Mirrored string string
  | MirrorFailed string string string
  | NoImageInfo string
  | AllMirrored nat
  | SomeMirrored nat nat

datatype event =
    Info log_msg
  | Warning log_msg
  | LogError log_msg
  | Exec "jsval list"
  | GetExecOutput "jsval list"
  | SetOutput string string
  | SetFailed string

fun docker_calls :: "event list \<Rightarrow> jsval list list" where
  "docker_calls [] = []"
| "docker_calls (Exec args # tr) = args # docker_calls tr"
| "docker_calls (GetExecOutput args # tr) = args # docker_calls tr"
| "docker_calls (e # tr) = docker_calls tr"

text \<open>\<^verbatim>\<open>exec.exec('docker', args)\<close> and \<^verbatim>\<open>exec.getExecOutput('docker', args)\<close>.\<close>

definition exec :: "host \<Rightarrow> jsval list \<Rightarrow> event list \<Rightarrow> (string + string) \<times> event list" where
  "exec h args tr = (docker h (docker_calls tr) args, tr @ [Exec args])"

definition getExecOutput :: "host \<Rightarrow> jsval list \<Rightarrow> event list \<Rightarrow> (string + string) \<times> event list" where
  "getExecOutput h args tr = (docker h (docker_calls tr) args, tr @ [GetExecOutput args])"

section \<open>Strings\<close>

text \<open>\<^verbatim>\<open>Number.prototype.toString\<close> on an integer: decimal digits, a minus sign if negative.\<close>

fun digits :: "nat \<Rightarrow> string" where
  "digits n =
     (if n < 10 then [''0123456789'' ! n]
      else digits (n div 10) @ [''0123456789'' ! (n mod 10)])"

declare digits.simps [simp del]

definition toString :: "int \<Rightarrow> string" where
  "toString k = (if k < 0 then ''-'' @ digits (nat (- k)) else digits (nat k))"

text \<open>
  \<^verbatim>\<open>JSON.stringify\<close> of the array of outcomes: the elements, each as the host serialises it,
  separated by commas and enclosed in brackets.
\<close>

fun join :: "string \<Rightarrow> string list \<Rightarrow> string" where
  "join sep [] = []"
| "join sep [x] = x"
| "join sep (x # y # ys) = x @ sep @ join sep (y # ys)"

definition stringify_results :: "host \<Rightarrow> outcome list \<Rightarrow> string" where
  "stringify_results h rs = ''['' @ join '','' (map (stringify h) rs) @ '']''"

section \<open>getImageInfo\<close>

definition digest_args :: "jsval \<Rightarrow> jsval list" where
  "digest_args img = [JStr ''inspect'', JStr ''--format={{index .RepoDigests 0}}'', img]"

definition size_args :: "jsval \<Rightarrow> jsval list" where
  "size_args img = [JStr ''inspect'', JStr ''--format={{.Size}}'', img]"

text \<open>
  Both queries are in one \<^verbatim>\<open>try\<close> block: \<^verbatim>\<open>digest\<close> and \<^verbatim>\<open>size\<close> start empty, each is
  assigned after its query returns, and the \<^verbatim>\<open>catch\<close> logs a warning.
\<close>

definition getImageInfo :: "host \<Rightarrow> jsval \<Rightarrow> event list \<Rightarrow> image_info \<times> event list" where
  "getImageInfo h img tr =
     (case getExecOutput h (digest_args img) tr of
        (Inl e, tr1) \<Rightarrow>
          (\<lparr>info_digest = [], info_size = []\<rparr>, tr1 @ [Warning (NoImageInfo e)])
      | (Inr digestOutput, tr1) \<Rightarrow>
          (case getExecOutput h (size_args img) tr1 of
             (Inl e, tr2) \<Rightarrow>
               (\<lparr>info_digest = trim h digestOutput, info_size = []\<rparr>,
                tr2 @ [Warning (NoImageInfo e)])
           | (Inr sizeOutput, tr2) \<Rightarrow>
               (\<lparr>info_digest = trim h digestOutput, info_size = trim h sizeOutput\<rparr>, tr2)))"

section \<open>run\<close>

subsection \<open>Reading and validating the inputs\<close>

text \<open>\<^verbatim>\<open>if (!Array.isArray(images)) images = [images]\<close>\<close>

fun as_array :: "jsval \<Rightarrow> jsval list" where
  "as_array (JArr xs) = xs"
| "as_array v = [v]"

definition invalid_format :: "string \<Rightarrow> string \<Rightarrow> string" where
  "invalid_format src msg =
     ''Invalid images format in '' @ src @ ''. Expected JSON array or object: '' @ msg"

text \<open>
  Lines 18 to 36: the inner \<^verbatim>\<open>try\<close> around reading and parsing. An input is supplied when
  its string is not empty.
\<close>

definition load_images ::
  "host \<Rightarrow> string \<Rightarrow> string \<Rightarrow> event list \<Rightarrow> (string + jsval list) \<times> event list" where
  "load_images h imagesInput imagesFileInput tr =
     (if imagesInput \<noteq> [] then
        (case json_parse h imagesInput of
           Inl e \<Rightarrow> (Inl (invalid_format ''images input'' e), tr)
         | Inr v \<Rightarrow> (Inr (as_array v), tr))
      else
        (let tr1 = tr @ [Info (ReadingFile imagesFileInput)];
             src = ''images file: '' @ imagesFileInput
         in case read_file h imagesFileInput of
              Inl e \<Rightarrow> (Inl (invalid_format src e), tr1)
            | Inr fileContent \<Rightarrow>
                (case json_parse h fileContent of
                   Inl e \<Rightarrow> (Inl (invalid_format src e), tr1)
                 | Inr v \<Rightarrow> (Inr (as_array v), tr1))))"

definition missing_fields :: string where
  \<open>missing_fields =
     ''Each image mapping must have "source", "destination", and "architecture" properties''\<close>

text \<open>
  Lines 38 to 42. The result is the message of the error thrown, \<open>None\<close> when the loop ends
  without throwing. The three reads are evaluated left to right and stop at the first
  falsy one.
\<close>

fun validate :: "jsval list \<Rightarrow> string option" where
  "validate [] = None"
| "validate (img # rest) =
     (case get_prop img ''source'' of
        Inl e \<Rightarrow> Some e
      | Inr s \<Rightarrow>
          if \<not> truthy s then Some missing_fields
          else (case get_prop img ''destination'' of
                  Inl e \<Rightarrow> Some e
                | Inr d \<Rightarrow>
                    if \<not> truthy d then Some missing_fields
                    else (case get_prop img ''architecture'' of
                            Inl e \<Rightarrow> Some e
                          | Inr a \<Rightarrow>
                              if \<not> truthy a then Some missing_fields
                              else validate rest)))"

subsection \<open>One image\<close>

record run_state =
  results :: "outcome list"
  successCount :: nat
  trace :: "event list"

text \<open>
  A statement of the loop body either completes with a value or throws, and may change the
  state on the way; \<open>and_then\<close> runs the next statement unless the first one threw.
\<close>

type_synonym 'a step = "run_state \<Rightarrow> (string + 'a) \<times> run_state"

definition and_then :: "'a step \<Rightarrow> ('a \<Rightarrow> 'b step) \<Rightarrow> 'b step" where
  "and_then m f s = (case m s of (Inl e, s1) \<Rightarrow> (Inl e, s1) | (Inr x, s1) \<Rightarrow> f x s1)"

text \<open>An expression without effect, a log line, a docker call, and the two updates.\<close>

definition evaluate :: "string + 'a \<Rightarrow> 'a step" where
  "evaluate r s = (r, s)"

definition log_line :: "event \<Rightarrow> unit step" where
  "log_line ev s = (Inr (), s\<lparr>trace := trace s @ [ev]\<rparr>)"

definition call :: "(event list \<Rightarrow> (string + 'a) \<times> event list) \<Rightarrow> 'a step" where
  "call f s = (case f (trace s) of (r, tr) \<Rightarrow> (r, s\<lparr>trace := tr\<rparr>))"

definition push_result :: "outcome \<Rightarrow> unit step" where
  "push_result oc s = (Inr (), s\<lparr>results := results s @ [oc]\<rparr>)"

definition increment :: "unit step" where
  "increment s = (Inr (), s\<lparr>successCount := successCount s + 1\<rparr>)"

definition pull_args :: "jsval \<Rightarrow> jsval \<Rightarrow> jsval list" where
  "pull_args sourceImage architecture =
     [JStr ''pull''] @ (if truthy architecture then [JStr ''--platform'', architecture] else [])
       @ [sourceImage]"

definition tag_args :: "jsval \<Rightarrow> jsval \<Rightarrow> jsval list" where
  "tag_args sourceImage destinationImage = [JStr ''tag'', sourceImage, destinationImage]"

definition push_args :: "jsval \<Rightarrow> jsval list" where
  "push_args destinationImage = [JStr ''push'', destinationImage]"

text \<open>Line 53: \<^verbatim>\<open>architecture ? ` (${architecture})` : ''\<close>.\<close>

definition archInfo :: "host \<Rightarrow> jsval \<Rightarrow> string + string" where
  "archInfo h architecture =
     (if truthy architecture then
        (case to_string h architecture of
           Inl e \<Rightarrow> Inl e
         | Inr a \<Rightarrow> Inr ('' ('' @ a @ '')''))
      else Inr [])"

text \<open>
  Lines 53 to 82, the body of the \<^verbatim>\<open>try\<close>, statement by statement. Each template literal
  converts the values it interpolates, from left to right, before its line is logged.
\<close>

definition try_body :: "host \<Rightarrow> nat \<Rightarrow> nat \<Rightarrow> jsval \<Rightarrow> jsval \<Rightarrow> jsval \<Rightarrow> unit step" where
  "try_body h n i sourceImage destinationImage architecture =
     and_then (evaluate (archInfo h architecture)) (\<lambda>info.
     and_then (evaluate (to_string h sourceImage)) (\<lambda>src.
     and_then (evaluate (to_string h destinationImage)) (\<lambda>dst.
     and_then (log_line (Info (Processing (i + 1) n src dst info))) (\<lambda>_.
     and_then (evaluate (to_string h sourceImage)) (\<lambda>src.
     and_then (log_line (Info (Pulling src info))) (\<lambda>_.
     and_then (call (exec h (pull_args sourceImage architecture))) (\<lambda>_.
     and_then (evaluate (to_string h destinationImage)) (\<lambda>dst.
     and_then (log_line (Info (Tagging dst))) (\<lambda>_.
     and_then (call (exec h (tag_args sourceImage destinationImage))) (\<lambda>_.
     and_then (evaluate (to_string h destinationImage)) (\<lambda>dst.
     and_then (log_line (Info (Pushing dst))) (\<lambda>_.
     and_then (call (exec h (push_args destinationImage))) (\<lambda>_.
     and_then (call (\<lambda>tr. case getImageInfo h destinationImage tr of
                              (imageInfo, tr1) \<Rightarrow> (Inr imageInfo, tr1))) (\<lambda>imageInfo.
     and_then (push_result
                 \<lparr>source = sourceImage, destination = destinationImage,
                  digest = info_digest imageInfo, image_size = info_size imageInfo,
                  status = Success, error = None\<rparr>) (\<lambda>_.
     and_then increment (\<lambda>_.
     and_then (evaluate (to_string h sourceImage)) (\<lambda>src.
     and_then (evaluate (to_string h destinationImage)) (\<lambda>dst.
     log_line (Info (Mirrored src dst))))))))))))))))))))"

text \<open>Lines 85 to 93, the body of the \<^verbatim>\<open>catch\<close>; \<open>e\<close> is \<^verbatim>\<open>imageError.message\<close>.\<close>

definition catch_body :: "host \<Rightarrow> jsval \<Rightarrow> jsval \<Rightarrow> string \<Rightarrow> unit step" where
  "catch_body h sourceImage destinationImage e =
     and_then (evaluate (to_string h sourceImage)) (\<lambda>src.
     and_then (evaluate (to_string h destinationImage)) (\<lambda>dst.
     and_then (log_line (LogError (MirrorFailed src dst e))) (\<lambda>_.
     push_result
       \<lparr>source = sourceImage, destination = destinationImage, digest = [], image_size = [],
        status = Failed, error = Some e\<rparr>)))"

text \<open>
  Lines 52 to 94: the \<^verbatim>\<open>try\<close> with its \<^verbatim>\<open>catch\<close>. An error thrown in the \<^verbatim>\<open>catch\<close> leaves
  the iteration.
\<close>

definition run_iteration :: "host \<Rightarrow> nat \<Rightarrow> nat \<Rightarrow> jsval \<Rightarrow> jsval \<Rightarrow> jsval \<Rightarrow> unit step" where
  "run_iteration h n i sourceImage destinationImage architecture s =
     (case try_body h n i sourceImage destinationImage architecture s of
        (Inl e, s1) \<Rightarrow> catch_body h sourceImage destinationImage e s1
      | (Inr u, s1) \<Rightarrow> (Inr u, s1))"

subsection \<open>The loop and the report\<close>

definition cannot_destructure :: "string \<Rightarrow> string" where
  "cannot_destructure what =
     ''Cannot destructure property '' @ [CHR 0x27] @ ''source'' @ [CHR 0x27] @ '' of ''
       @ [CHR 0x27] @ ''images[i]'' @ [CHR 0x27] @ '' as it is '' @ what @ ''.''"

text \<open>
  Line 50, outside the \<^verbatim>\<open>try\<close>: destructuring \<^verbatim>\<open>null\<close> or \<^verbatim>\<open>undefined\<close> throws a TypeError
  (V8's message).
\<close>

fun destructure :: "jsval \<Rightarrow> string + jsval \<times> jsval \<times> jsval" where
  "destructure JUndefined = Inl (cannot_destructure ''undefined'')"
| "destructure JNull = Inl (cannot_destructure ''null'')"
| "destructure v = Inr (prop_of v ''source'', prop_of v ''destination'', prop_of v ''architecture'')"

text \<open>
  Lines 49 to 95: \<open>n\<close> is \<^verbatim>\<open>images.length\<close>, \<open>i\<close> the index of the first image of the
  list still to process. The first component is the message of an error that leaves the
  loop.
\<close>

fun run_loop :: "host \<Rightarrow> nat \<Rightarrow> nat \<Rightarrow> jsval list \<Rightarrow> run_state \<Rightarrow> string option \<times> run_state" where
  "run_loop h n i [] s = (None, s)"
| "run_loop h n i (img # rest) s =
     (case destructure img of
        Inl e \<Rightarrow> (Some e, s)
      | Inr (sourceImage, destinationImage, architecture) \<Rightarrow>
          (case run_iteration h n i sourceImage destinationImage architecture s of
             (Inl e, s1) \<Rightarrow> (Some e, s1)
           | (Inr u, s1) \<Rightarrow> run_loop h n (i + 1) rest s1))"

definition sync_failed :: "nat \<Rightarrow> nat \<Rightarrow> string" where
  "sync_failed c n =
     ''Failed to sync '' @ toString (int n - int c) @ '' out of '' @ toString (int n)
       @ '' image(s)''"

text \<open>Lines 97 to 106.\<close>

definition report :: "host \<Rightarrow> nat \<Rightarrow> run_state \<Rightarrow> run_state" where
  "report h n s =
     (let tr = trace s @
            [SetOutput ''results'' (stringify_results h (results s)),
             SetOutput ''success-count'' (toString (int (successCount s))),
             SetOutput ''total-count'' (toString (int n))]
      in if successCount s = n then s\<lparr>trace := tr @ [Info (AllMirrored n)]\<rparr>
         else s\<lparr>trace := tr @ [LogError (SomeMirrored (successCount s) n),
                               SetFailed (sync_failed (successCount s) n)]\<rparr>)"

subsection \<open>The whole run\<close>

definition no_input :: string where
  \<open>no_input = ''Either "images" or "images-file" input must be provided''\<close>

definition both_inputs :: string where
  \<open>both_inputs = ''Only one of "images" or "images-file" inputs should be provided, not both''\<close>

definition initial :: "event list \<Rightarrow> run_state" where
  "initial tr = \<lparr>results = [], successCount = 0, trace = tr\<rparr>"

text \<open>
  Lines 7 to 106, the body of the outer \<^verbatim>\<open>try\<close>. The first component is the message of
  the error that leaves it. The state holds the outcomes pushed so far, which are none
  before the loop starts.
\<close>

definition run_body :: "host \<Rightarrow> string \<Rightarrow> string \<Rightarrow> string option \<times> run_state" where
  "run_body h imagesInput imagesFileInput =
     (if imagesInput = [] \<and> imagesFileInput = [] then (Some no_input, initial [])
      else if imagesInput \<noteq> [] \<and> imagesFileInput \<noteq> [] then (Some both_inputs, initial [])
      else (case load_images h imagesInput imagesFileInput [] of
              (Inl e, tr) \<Rightarrow> (Some e, initial tr)
            | (Inr images, tr) \<Rightarrow>
                (case validate images of
                   Some e \<Rightarrow> (Some e, initial tr)
                 | None \<Rightarrow>
                     (case run_loop h (length images) 0 images
                             (initial (tr @ [Info (Starting (length images))])) of
                        (Some e, s) \<Rightarrow> (Some e, s)
                      | (None, s) \<Rightarrow> (None, report h (length images) s)))))"

text \<open>Lines 5 to 111: \<^verbatim>\<open>run\<close>, with the outer \<^verbatim>\<open>catch\<close>.\<close>

definition run :: "host \<Rightarrow> string \<Rightarrow> string \<Rightarrow> run_state" where
  "run h imagesInput imagesFileInput =
     (case run_body h imagesInput imagesFileInput of
        (Some e, s) \<Rightarrow> s\<lparr>trace := trace s @ [SetFailed (''Action failed with error: '' @ e)]\<rparr>
      | (None, s) \<Rightarrow> s)"


section \<open>Vocabulary of the statements\<close>

text \<open>A value that a template literal can interpolate without throwing.\<close>

definition printable :: "host \<Rightarrow> jsval \<Rightarrow> bool" where
  "printable h v = (case to_string h v of Inl e \<Rightarrow> False | Inr s \<Rightarrow> True)"

text \<open>
  The two log lines that precede the pull (lines 54 and 62), and the events of an image
  whose pull, tag and push all succeed, up to the push. The strings are the source, the
  destination and \<^verbatim>\<open>archInfo\<close>, as converted.
\<close>

definition before_pull :: "nat \<Rightarrow> nat \<Rightarrow> string \<Rightarrow> string \<Rightarrow> string \<Rightarrow> event list" where
  "before_pull n i src dst info = [Info (Processing (i + 1) n src dst info), Info (Pulling src info)]"

definition steps_to_push ::
  "nat \<Rightarrow> nat \<Rightarrow> jsval \<Rightarrow> jsval \<Rightarrow> jsval \<Rightarrow> string \<Rightarrow> string \<Rightarrow> string \<Rightarrow> event list" where
  "steps_to_push n i sourceImage destinationImage architecture src dst info =
     before_pull n i src dst info @
     [Exec (pull_args sourceImage architecture), Info (Tagging dst),
      Exec (tag_args sourceImage destinationImage),
      Info (Pushing dst), Exec (push_args destinationImage)]"

text \<open>
  What a run writes back to the invoking environment: its outputs and its failure message;
  and the values written to one output.
\<close>

definition outputs :: "event list \<Rightarrow> event list" where
  "outputs tr = filter (\<lambda>e. case e of SetOutput k v \<Rightarrow> True | SetFailed m \<Rightarrow> True | _ \<Rightarrow> False) tr"

fun output_values :: "string \<Rightarrow> event list \<Rightarrow> string list" where
  "output_values k [] = []"
| "output_values k (SetOutput k1 v # tr) = (if k1 = k then [v] else []) @ output_values k tr"
| "output_values k (e # tr) = output_values k tr"

text \<open>The \<^verbatim>\<open>docker pull\<close> invocations of a trace, in order.\<close>

definition pull_calls :: "event list \<Rightarrow> jsval list list" where
  "pull_calls tr = filter (\<lambda>args. take 1 args = [JStr ''pull'']) (docker_calls tr)"

text \<open>The number of outcomes with \<^verbatim>\<open>status: 'success'\<close>, and with \<^verbatim>\<open>status: 'failed'\<close>.\<close>

definition succeeded :: "outcome list \<Rightarrow> nat" where
  "succeeded rs = length (filter (\<lambda>oc. status oc = Success) rs)"

definition failed :: "outcome list \<Rightarrow> nat" where
  "failed rs = length (filter (\<lambda>oc. status oc = Failed) rs)"

text \<open>The state in which the loop starts (line 44 has been logged).\<close>

definition loop_start :: "jsval list \<Rightarrow> event list \<Rightarrow> run_state" where
  "loop_start images tr0 = initial (tr0 @ [Info (Starting (length images))])"

section \<open>Example hosts\<close>

text \<open>
  Three image mappings: two with strings in every field, and one whose source is the object
  \<^verbatim>\<open>{"toString":1}\<close>. The JSON texts of three lists of them. A parser that knows these
  texts, \<^verbatim>\<open>[]\<close> and \<^verbatim>\<open>[null]\<close>; a file system with the one file \<^verbatim>\<open>images.json\<close>, which holds
  \<^verbatim>\<open>[]\<close>; a docker that rejects exactly the calls whose argument list is in \<open>bad\<close> and
  otherwise prints a digest line, a size line, or nothing; a serialiser that prints every
  outcome as \<^verbatim>\<open>{}\<close>; numbers printed as their integer part (the examples convert none); and
  a \<^verbatim>\<open>trim\<close> that removes ASCII white space: tab, line feed, vertical tab, form feed,
  carriage return and space.
\<close>

definition img_a :: jsval where
  "img_a = JObj [(''source'', JStr ''a:1''), (''destination'', JStr ''b:1''),
                 (''architecture'', JStr ''linux/amd64'')]"

definition img_x :: jsval where
  "img_x = JObj [(''source'', JStr ''x:1''), (''destination'', JStr ''y:1''),
                 (''architecture'', JStr ''linux/arm64'')]"

definition img_t :: jsval where
  "img_t = JObj [(''source'', JObj [(''toString'', JNum 1)]), (''destination'', JStr ''b:1''),
                 (''architecture'', JStr ''linux/amd64'')]"

definition two_images :: string where
  \<open>two_images =
     ''[{"source":"a:1","destination":"b:1","architecture":"linux/amd64"},''
     @ ''{"source":"x:1","destination":"y:1","architecture":"linux/arm64"}]''\<close>

definition unprintable_first :: string where
  \<open>unprintable_first =
     ''[{"source":{"toString":1},"destination":"b:1","architecture":"linux/amd64"},''
     @ ''{"source":"x:1","destination":"y:1","architecture":"linux/arm64"}]''\<close>

definition unprintable_last :: string where
  \<open>unprintable_last =
     ''[{"source":"a:1","destination":"b:1","architecture":"linux/amd64"},''
     @ ''{"source":{"toString":1},"destination":"b:1","architecture":"linux/amd64"}]''\<close>

definition is_space :: "char \<Rightarrow> bool" where
  "is_space c = (c \<in> set [CHR 0x09, CHR 0x0A, CHR 0x0B, CHR 0x0C, CHR 0x0D, CHR 0x20])"

definition ascii_trim :: "string \<Rightarrow> string" where
  "ascii_trim s = rev (dropWhile is_space (rev (dropWhile is_space s)))"

definition example_docker :: "jsval list list \<Rightarrow> jsval list list \<Rightarrow> jsval list \<Rightarrow> string + string" where
  "example_docker bad hist args =
     (if args \<in> set bad then Inl ''exit code 1''
      else if args = digest_args (last args) then Inr (''b@sha256:0a'' @ [CHR 0x0A])
      else if args = size_args (last args) then Inr (''1234'' @ [CHR 0x0A])
      else Inr [])"

definition example_parse :: "string \<Rightarrow> string + jsval" where
  "example_parse s =
     (if s = ''[]'' then Inr (JArr [])
      else if s = ''[null]'' then Inr (JArr [JNull])
      else if s = two_images then Inr (JArr [img_a, img_x])
      else if s = unprintable_first then Inr (JArr [img_t, img_x])
      else if s = unprintable_last then Inr (JArr [img_a, img_t])
      else Inl ''Unexpected token'')"

definition example_host :: "jsval list list \<Rightarrow> host" where
  "example_host bad =
     \<lparr>read_file = (\<lambda>p. if p = ''images.json'' then Inr ''[]'' else Inl ''ENOENT''),
      json_parse = example_parse,
      docker = example_docker bad,
      stringify = (\<lambda>oc. ''{}''),
      number_toString = (\<lambda>r. toString \<lfloor>r\<rfloor>),
      trim = ascii_trim\<rparr>"

text \<open>The argument lists of the docker calls made for the two printable mappings.\<close>

definition pull_a :: "jsval list" where
  "pull_a = [JStr ''pull'', JStr ''--platform'', JStr ''linux/amd64'', JStr ''a:1'']"

definition tag_a :: "jsval list" where
  "tag_a = [JStr ''tag'', JStr ''a:1'', JStr ''b:1'']"

definition push_a :: "jsval list" where
  "push_a = [JStr ''push'', JStr ''b:1'']"

definition digest_b :: "jsval list" where
  "digest_b = [JStr ''inspect'', JStr ''--format={{index .RepoDigests 0}}'', JStr ''b:1'']"

definition size_b :: "jsval list" where
  "size_b = [JStr ''inspect'', JStr ''--format={{.Size}}'', JStr ''b:1'']"

definition pull_x :: "jsval list" where
  "pull_x = [JStr ''pull'', JStr ''--platform'', JStr ''linux/arm64'', JStr ''x:1'']"

definition tag_x :: "jsval list" where
  "tag_x = [JStr ''tag'', JStr ''x:1'', JStr ''y:1'']"

definition push_x :: "jsval list" where
  "push_x = [JStr ''push'', JStr ''y:1'']"

section \<open>Lemmas\<close>

subsection \<open>getImageInfo\<close>

lemma docker_calls_append [simp]: "docker_calls (xs @ ys) = docker_calls xs @ docker_calls ys"
  by (induction xs rule: docker_calls.induct) simp_all

lemma getImageInfo_digest_fails:
  assumes "docker h (docker_calls tr) (digest_args img) = Inl e"
  shows "getImageInfo h img tr =
           (\<lparr>info_digest = [], info_size = []\<rparr>,
            tr @ [GetExecOutput (digest_args img), Warning (NoImageInfo e)])"
  using assms by (simp add: getImageInfo_def getExecOutput_def)

lemma getImageInfo_size_fails:
  assumes "docker h (docker_calls tr) (digest_args img) = Inr d"
    and "docker h (docker_calls tr @ [digest_args img]) (size_args img) = Inl e"
  shows "getImageInfo h img tr =
           (\<lparr>info_digest = trim h d, info_size = []\<rparr>,
            tr @ [GetExecOutput (digest_args img), GetExecOutput (size_args img),
                  Warning (NoImageInfo e)])"
  using assms by (simp add: getImageInfo_def getExecOutput_def)

lemma getImageInfo_ok:
  assumes "docker h (docker_calls tr) (digest_args img) = Inr d"
    and "docker h (docker_calls tr @ [digest_args img]) (size_args img) = Inr z"
  shows "getImageInfo h img tr =
           (\<lparr>info_digest = trim h d, info_size = trim h z\<rparr>,
            tr @ [GetExecOutput (digest_args img), GetExecOutput (size_args img)])"
  using assms by (simp add: getImageInfo_def getExecOutput_def)

subsection \<open>The body of the try, case by case\<close>

lemmas step_defs = and_then_def evaluate_def log_line_def call_def push_result_def
  increment_def exec_def

lemma try_body_archInfo_throws:
  assumes "archInfo h arch = Inl e"
  shows "try_body h n i src dst arch s = (Inl e, s)"
  using assms by (simp add: try_body_def step_defs)

lemma try_body_source_throws:
  assumes "archInfo h arch = Inr info" and "to_string h src = Inl e"
  shows "try_body h n i src dst arch s = (Inl e, s)"
  using assms by (simp add: try_body_def step_defs)

lemma try_body_destination_throws:
  assumes "archInfo h arch = Inr info" and "to_string h src = Inr ss"
    and "to_string h dst = Inl e"
  shows "try_body h n i src dst arch s = (Inl e, s)"
  using assms by (simp add: try_body_def step_defs)

lemma try_body_pull_fails:
  assumes "archInfo h arch = Inr info" and "to_string h src = Inr ss"
    and "to_string h dst = Inr ds"
    and "docker h (docker_calls (trace s)) (pull_args src arch) = Inl e"
  shows "try_body h n i src dst arch s =
           (Inl e, s\<lparr>trace := trace s @ before_pull n i ss ds info @ [Exec (pull_args src arch)]\<rparr>)"
  using assms by (simp add: try_body_def step_defs before_pull_def)

lemma try_body_tag_fails:
  assumes "archInfo h arch = Inr info" and "to_string h src = Inr ss"
    and "to_string h dst = Inr ds"
    and "docker h (docker_calls (trace s)) (pull_args src arch) = Inr out1"
    and "docker h (docker_calls (trace s) @ [pull_args src arch]) (tag_args src dst) = Inl e"
  shows "try_body h n i src dst arch s =
           (Inl e, s\<lparr>trace := trace s @ before_pull n i ss ds info @
              [Exec (pull_args src arch), Info (Tagging ds), Exec (tag_args src dst)]\<rparr>)"
  using assms by (simp add: try_body_def step_defs before_pull_def)

lemma try_body_push_fails:
  assumes "archInfo h arch = Inr info" and "to_string h src = Inr ss"
    and "to_string h dst = Inr ds"
    and "docker h (docker_calls (trace s)) (pull_args src arch) = Inr out1"
    and "docker h (docker_calls (trace s) @ [pull_args src arch]) (tag_args src dst) = Inr out2"
    and "docker h (docker_calls (trace s) @ [pull_args src arch, tag_args src dst])
           (push_args dst) = Inl e"
  shows "try_body h n i src dst arch s =
           (Inl e, s\<lparr>trace := trace s @ before_pull n i ss ds info @
              [Exec (pull_args src arch), Info (Tagging ds), Exec (tag_args src dst),
               Info (Pushing ds), Exec (push_args dst)]\<rparr>)"
  using assms by (simp add: try_body_def step_defs before_pull_def)

lemma try_body_pushed:
  assumes "archInfo h arch = Inr info" and "to_string h src = Inr ss"
    and "to_string h dst = Inr ds"
    and "docker h (docker_calls (trace s)) (pull_args src arch) = Inr out1"
    and "docker h (docker_calls (trace s) @ [pull_args src arch]) (tag_args src dst) = Inr out2"
    and "docker h (docker_calls (trace s) @ [pull_args src arch, tag_args src dst])
           (push_args dst) = Inr out3"
    and "getImageInfo h dst (trace s @ steps_to_push n i src dst arch ss ds info) = (imageInfo, tr)"
  shows "try_body h n i src dst arch s =
           (Inr (),
            \<lparr>results = results s @
               [\<lparr>source = src, destination = dst, digest = info_digest imageInfo,
                 image_size = info_size imageInfo, status = Success, error = None\<rparr>],
             successCount = successCount s + 1,
             trace = tr @ [Info (Mirrored ss ds)]\<rparr>)"
  using assms by (simp add: try_body_def step_defs before_pull_def steps_to_push_def)

subsection \<open>The body of the catch\<close>

lemma catch_body_logs:
  assumes "to_string h src = Inr ss" and "to_string h dst = Inr ds"
  shows "catch_body h src dst e s =
           (Inr (),
            \<lparr>results = results s @
               [\<lparr>source = src, destination = dst, digest = [], image_size = [],
                 status = Failed, error = Some e\<rparr>],
             successCount = successCount s,
             trace = trace s @ [LogError (MirrorFailed ss ds e)]\<rparr>)"
  using assms by (simp add: catch_body_def step_defs)

lemma catch_body_source_throws:
  assumes "to_string h src = Inl e1"
  shows "catch_body h src dst e s = (Inl e1, s)"
  using assms by (simp add: catch_body_def step_defs)

lemma catch_body_destination_throws:
  assumes "to_string h src = Inr ss" and "to_string h dst = Inl e1"
  shows "catch_body h src dst e s = (Inl e1, s)"
  using assms by (simp add: catch_body_def step_defs)

subsection \<open>What one iteration adds to the state\<close>

lemma outputs_append [simp]: "outputs (xs @ ys) = outputs xs @ outputs ys"
  by (simp add: outputs_def)

lemma pull_calls_append [simp]: "pull_calls (xs @ ys) = pull_calls xs @ pull_calls ys"
  by (simp add: pull_calls_def)

lemma succeeded_append [simp]: "succeeded (xs @ ys) = succeeded xs + succeeded ys"
  by (simp add: succeeded_def)

lemma output_values_append [simp]:
  "output_values k (xs @ ys) = output_values k xs @ output_values k ys"
  by (induction k xs rule: output_values.induct) simp_all

lemma output_values_outputs: "output_values k (outputs tr) = output_values k tr"
  by (induction k tr rule: output_values.induct) (simp_all add: outputs_def)

lemma succeeded_le: "succeeded rs \<le> length rs"
  by (simp add: succeeded_def)

lemma succeeded_failed: "succeeded rs + failed rs = length rs"
proof (induction rs)
  case Nil
  show ?case by (simp add: succeeded_def failed_def)
next
  case (Cons oc rs)
  then show ?case by (cases "status oc") (simp_all add: succeeded_def failed_def)
qed

lemma printable_iff: "printable h v \<longleftrightarrow> (\<exists>s. to_string h v = Inr s)"
  by (cases "to_string h v") (simp_all add: printable_def)

lemmas trace_simps = outputs_def pull_calls_def before_pull_def pull_args_def tag_args_def
  push_args_def

lemma getImageInfo_trace:
  "\<exists>ext. snd (getImageInfo h img tr) = tr @ ext \<and> outputs ext = [] \<and> pull_calls ext = []"
  by (auto simp: getImageInfo_def getExecOutput_def outputs_def pull_calls_def
      digest_args_def size_args_def split: sum.splits)

lemma run_iteration_unprintable:
  assumes "\<not> printable h src \<or> \<not> printable h dst"
  shows "\<exists>e. run_iteration h n i src dst arch s = (Inl e, s)"
proof (cases "to_string h src")
  case src: (Inl e1)
  have "\<exists>e. try_body h n i src dst arch s = (Inl e, s)"
    by (cases "archInfo h arch")
      (simp_all add: try_body_archInfo_throws try_body_source_throws [OF _ src])
  then show ?thesis
    by (auto simp: run_iteration_def catch_body_source_throws [OF src])
next
  case src: (Inr ss)
  with assms obtain e1 where dst: "to_string h dst = Inl e1"
    by (cases "to_string h dst") (simp_all add: printable_def)
  have "\<exists>e. try_body h n i src dst arch s = (Inl e, s)"
    by (cases "archInfo h arch")
      (simp_all add: try_body_archInfo_throws try_body_destination_throws [OF _ src dst])
  then show ?thesis
    by (auto simp: run_iteration_def catch_body_destination_throws [OF src dst])
qed

lemma caught_shape:
  assumes "to_string h src = Inr ss" and "to_string h dst = Inr ds"
    and "try_body h n i src dst arch s = (Inl e, s\<lparr>trace := trace s @ ext1\<rparr>)"
    and "outputs ext1 = []" and "pull_calls ext1 = calls"
  shows "\<exists>oc ext. run_iteration h n i src dst arch s =
       (Inr (), \<lparr>results = results s @ [oc],
                 successCount = successCount s + succeeded [oc],
                 trace = trace s @ ext\<rparr>)
     \<and> source oc = src \<and> destination oc = dst
     \<and> outputs ext = [] \<and> pull_calls ext = calls"
  apply (rule exI [of _ "\<lparr>source = src, destination = dst, digest = [], image_size = [],
           status = Failed, error = Some e\<rparr>"])
  apply (rule exI [of _ "ext1 @ [LogError (MirrorFailed ss ds e)]"])
  using assms(4,5)
  by (simp add: run_iteration_def assms(3) catch_body_logs [OF assms(1,2)] succeeded_def
      outputs_def pull_calls_def)

lemma run_iteration_shape:
  assumes src: "to_string h src = Inr ss" and dst: "to_string h dst = Inr ds"
  shows "\<exists>oc ext. run_iteration h n i src dst arch s =
       (Inr (), \<lparr>results = results s @ [oc],
                 successCount = successCount s + succeeded [oc],
                 trace = trace s @ ext\<rparr>)
     \<and> source oc = src \<and> destination oc = dst
     \<and> outputs ext = []
     \<and> pull_calls ext = (case archInfo h arch of Inl e \<Rightarrow> [] | Inr info \<Rightarrow> [pull_args src arch])"
proof (cases "archInfo h arch")
  case (Inl e)
  have "try_body h n i src dst arch s = (Inl e, s\<lparr>trace := trace s @ []\<rparr>)"
    by (simp add: try_body_archInfo_throws [OF Inl])
  from caught_shape [OF src dst this, where calls = "[]"] show ?thesis
    by (simp add: Inl outputs_def pull_calls_def)
next
  case arch: (Inr info)
  note base = arch src dst
  show ?thesis
  proof (cases "docker h (docker_calls (trace s)) (pull_args src arch)")
    case (Inl e)
    from caught_shape [OF src dst try_body_pull_fails [OF base Inl],
          where calls = "[pull_args src arch]"]
    show ?thesis
      by (simp add: arch trace_simps)
  next
    case pull: (Inr out1)
    show ?thesis
    proof (cases "docker h (docker_calls (trace s) @ [pull_args src arch]) (tag_args src dst)")
      case (Inl e)
      from caught_shape [OF src dst try_body_tag_fails [OF base pull Inl],
          where calls = "[pull_args src arch]"]
      show ?thesis
        by (simp add: arch trace_simps)
    next
      case tag: (Inr out2)
      show ?thesis
      proof (cases "docker h (docker_calls (trace s) @ [pull_args src arch, tag_args src dst])
                      (push_args dst)")
        case (Inl e)
        from caught_shape [OF src dst try_body_push_fails [OF base pull tag Inl],
          where calls = "[pull_args src arch]"]
        show ?thesis
          by (simp add: arch trace_simps)
      next
        case push: (Inr out3)
        let ?steps = "steps_to_push n i src dst arch ss ds info"
        obtain imageInfo tr where g: "getImageInfo h dst (trace s @ ?steps) = (imageInfo, tr)"
          by (cases "getImageInfo h dst (trace s @ ?steps)")
        obtain ext where ext: "tr = (trace s @ ?steps) @ ext" "outputs ext = []"
          "pull_calls ext = []"
          using getImageInfo_trace [of h dst "trace s @ ?steps"] g by auto
        have steps: "outputs ?steps = []" "pull_calls ?steps = [pull_args src arch]"
          by (simp_all add: steps_to_push_def trace_simps)
        show ?thesis
          apply (rule exI [of _ "\<lparr>source = src, destination = dst,
                   digest = info_digest imageInfo, image_size = info_size imageInfo,
                   status = Success, error = None\<rparr>"])
          apply (rule exI [of _ "?steps @ ext @ [Info (Mirrored ss ds)]"])
          using ext steps
          by (simp add: run_iteration_def try_body_pushed [OF base pull tag push g] arch
              succeeded_def outputs_def pull_calls_def)
      qed
    qed
  qed
qed

subsection \<open>Validation and the loop\<close>

lemma validate_Cons_None:
  "validate (img # rest) = None \<longleftrightarrow>
     truthy (prop_of img ''source'') \<and> truthy (prop_of img ''destination'')
       \<and> truthy (prop_of img ''architecture'') \<and> validate rest = None"
  by (cases img) simp_all


lemma destructure_truthy:
  "truthy (prop_of img ''source'') \<Longrightarrow>
     destructure img = Inr (prop_of img ''source'', prop_of img ''destination'',
                            prop_of img ''architecture'')"
  by (cases img) simp_all


lemma run_loop_Cons_printable:
  assumes "validate (img # rest) = None"
    and "printable h (prop_of img ''source'')" and "printable h (prop_of img ''destination'')"
  shows "\<exists>oc ext. run_loop h n i (img # rest) s =
        run_loop h n (i + 1) rest
          \<lparr>results = results s @ [oc], successCount = successCount s + succeeded [oc],
           trace = trace s @ ext\<rparr>
     \<and> source oc = prop_of img ''source'' \<and> destination oc = prop_of img ''destination''
     \<and> outputs ext = []
     \<and> pull_calls ext =
         (case archInfo h (prop_of img ''architecture'') of
            Inl e \<Rightarrow> []
          | Inr info \<Rightarrow> [pull_args (prop_of img ''source'') (prop_of img ''architecture'')])"
proof -
  let ?src = "prop_of img ''source''" and ?dst = "prop_of img ''destination''"
    and ?arch = "prop_of img ''architecture''"
  from assms(1) have d: "destructure img = Inr (?src, ?dst, ?arch)"
    by (simp only: validate_Cons_None destructure_truthy)
  from assms(2,3) obtain ss ds where "to_string h ?src = Inr ss" "to_string h ?dst = Inr ds"
    by (auto simp: printable_iff)
  from run_iteration_shape [OF this, of n i ?arch s]
  obtain oc ext where step: "run_iteration h n i ?src ?dst ?arch s =
       (Inr (), \<lparr>results = results s @ [oc], successCount = successCount s + succeeded [oc],
                 trace = trace s @ ext\<rparr>)"
    and rest: "source oc = ?src" "destination oc = ?dst" "outputs ext = []"
      "pull_calls ext = (case archInfo h ?arch of Inl e \<Rightarrow> [] | Inr info \<Rightarrow> [pull_args ?src ?arch])"
    by blast
  have "run_loop h n i (img # rest) s =
        run_loop h n (i + 1) rest
          \<lparr>results = results s @ [oc], successCount = successCount s + succeeded [oc],
           trace = trace s @ ext\<rparr>"
    by (simp add: d step)
  with rest show ?thesis by blast
qed

lemma run_loop_Cons_unprintable:
  assumes "validate (img # rest) = None"
    and "\<not> printable h (prop_of img ''source'') \<or> \<not> printable h (prop_of img ''destination'')"
  shows "\<exists>e. run_loop h n i (img # rest) s = (Some e, s)"
proof -
  let ?src = "prop_of img ''source''" and ?dst = "prop_of img ''destination''"
    and ?arch = "prop_of img ''architecture''"
  from assms(1) have d: "destructure img = Inr (?src, ?dst, ?arch)"
    by (simp only: validate_Cons_None destructure_truthy)
  from run_iteration_unprintable [OF assms(2), of n i ?arch s]
  obtain e where "run_iteration h n i ?src ?dst ?arch s = (Inl e, s)" by blast
  then have "run_loop h n i (img # rest) s = (Some e, s)"
    by (simp add: d)
  then show ?thesis by blast
qed

text \<open>
  The loop completes exactly when every source and every destination can be converted to a
  string.
\<close>

lemma run_loop_completes_iff:
  assumes "validate images = None"
  shows "fst (run_loop h n i images s) = None \<longleftrightarrow>
     (\<forall>img \<in> set images. printable h (prop_of img ''source'')
        \<and> printable h (prop_of img ''destination''))"
  using assms
proof (induction images arbitrary: i s)
  case Nil
  show ?case by simp
next
  case (Cons img rest)
  from Cons.prems have rest: "validate rest = None"
    by (simp only: validate_Cons_None)
  show ?case
  proof (cases "printable h (prop_of img ''source'') \<and> printable h (prop_of img ''destination'')")
    case True
    then obtain s1 where "run_loop h n i (img # rest) s = run_loop h n (i + 1) rest s1"
      using run_loop_Cons_printable [OF Cons.prems, of h n i s] by blast
    then show ?thesis
      using Cons.IH [OF rest, of "i + 1" s1] True by simp
  next
    case False
    then obtain e where "run_loop h n i (img # rest) s = (Some e, s)"
      using run_loop_Cons_unprintable [OF Cons.prems, of h n i s] by blast
    then show ?thesis
      using False by auto
  qed
qed

text \<open>Whether it completes or not, the loop writes no output and pulls only with a platform.\<close>

lemma run_loop_trace:
  assumes "validate images = None"
  shows "\<exists>ext. trace (snd (run_loop h n i images s)) = trace s @ ext \<and> outputs ext = []
     \<and> set (pull_calls ext) \<subseteq>
         (\<lambda>img. pull_args (prop_of img ''source'') (prop_of img ''architecture'')) ` set images"
  using assms
proof (induction images arbitrary: i s)
  case Nil
  show ?case by (simp add: outputs_def pull_calls_def)
next
  case (Cons img rest)
  let ?pull = "\<lambda>img. pull_args (prop_of img ''source'') (prop_of img ''architecture'')"
  from Cons.prems have rest: "validate rest = None"
    by (simp only: validate_Cons_None)
  show ?case
  proof (cases "printable h (prop_of img ''source'') \<and> printable h (prop_of img ''destination'')")
    case True
    then obtain oc ext1 where step: "run_loop h n i (img # rest) s =
        run_loop h n (i + 1) rest
          \<lparr>results = results s @ [oc], successCount = successCount s + succeeded [oc],
           trace = trace s @ ext1\<rparr>"
      and ext1: "outputs ext1 = []"
        "pull_calls ext1 = (case archInfo h (prop_of img ''architecture'') of
            Inl e \<Rightarrow> [] | Inr info \<Rightarrow> [?pull img])"
      using run_loop_Cons_printable [OF Cons.prems, of h n i s] by blast
    let ?s1 = "\<lparr>results = results s @ [oc], successCount = successCount s + succeeded [oc],
           trace = trace s @ ext1\<rparr>"
    obtain ext2 where ext2: "trace (snd (run_loop h n (i + 1) rest ?s1)) = trace ?s1 @ ext2"
      "outputs ext2 = []" "set (pull_calls ext2) \<subseteq> ?pull ` set rest"
      using Cons.IH [OF rest, of "i + 1" ?s1] by blast
    have "set (pull_calls ext1) \<subseteq> ?pull ` set (img # rest)"
      by (cases "archInfo h (prop_of img ''architecture'')") (simp_all add: ext1(2))
    with ext2(3) have "set (pull_calls (ext1 @ ext2)) \<subseteq> ?pull ` set (img # rest)"
      by auto
    moreover have "trace (snd (run_loop h n i (img # rest) s)) = trace s @ (ext1 @ ext2)"
      unfolding step using ext2(1) by simp
    moreover have "outputs (ext1 @ ext2) = []"
      using ext1(1) ext2(2) by simp
    ultimately show ?thesis by blast
  next
    case False
    then obtain e where "run_loop h n i (img # rest) s = (Some e, s)"
      using run_loop_Cons_unprintable [OF Cons.prems, of h n i s] by blast
    then have "trace (snd (run_loop h n i (img # rest) s)) = trace s @ []"
      by simp
    moreover have "outputs [] = []" "set (pull_calls []) \<subseteq> ?pull ` set (img # rest)"
      by (simp_all add: outputs_def pull_calls_def)
    ultimately show ?thesis by blast
  qed
qed

text \<open>When the loop completes, it has pushed one outcome per image and counted the successes.\<close>

lemma run_loop_results:
  assumes "validate images = None" and "run_loop h n i images s = (None, s')"
  shows "\<exists>rs. results s' = results s @ rs
     \<and> map source rs = map (\<lambda>img. prop_of img ''source'') images
     \<and> map destination rs = map (\<lambda>img. prop_of img ''destination'') images
     \<and> successCount s' = successCount s + succeeded rs"
  using assms
proof (induction images arbitrary: i s)
  case Nil
  then have "results s' = results s @ []" "successCount s' = successCount s + succeeded []"
    by (simp_all add: succeeded_def)
  then show ?case by fastforce
next
  case (Cons img rest)
  from Cons.prems(1) have rest: "validate rest = None"
    by (simp only: validate_Cons_None)
  have "fst (run_loop h n i (img # rest) s) = None"
    using Cons.prems(2) by simp
  then have "printable h (prop_of img ''source'')" "printable h (prop_of img ''destination'')"
    using run_loop_completes_iff [OF Cons.prems(1), of h n i s] by simp_all
  then obtain oc ext1 where step: "run_loop h n i (img # rest) s =
        run_loop h n (i + 1) rest
          \<lparr>results = results s @ [oc], successCount = successCount s + succeeded [oc],
           trace = trace s @ ext1\<rparr>"
    and oc: "source oc = prop_of img ''source''" "destination oc = prop_of img ''destination''"
    using run_loop_Cons_printable [OF Cons.prems(1), of h n i s] by blast
  let ?s1 = "\<lparr>results = results s @ [oc], successCount = successCount s + succeeded [oc],
           trace = trace s @ ext1\<rparr>"
  have "run_loop h n (i + 1) rest ?s1 = (None, s')"
    using Cons.prems(2) step by simp
  from Cons.IH [OF rest this]
  obtain rs where rs: "results s' = results ?s1 @ rs"
    "map source rs = map (\<lambda>img. prop_of img ''source'') rest"
    "map destination rs = map (\<lambda>img. prop_of img ''destination'') rest"
    "successCount s' = successCount ?s1 + succeeded rs"
    by blast
  have "results s' = results s @ (oc # rs)"
    using rs(1) by simp
  moreover have "map source (oc # rs) = map (\<lambda>img. prop_of img ''source'') (img # rest)"
    using rs(2) oc(1) by simp
  moreover have "map destination (oc # rs) = map (\<lambda>img. prop_of img ''destination'') (img # rest)"
    using rs(3) oc(2) by simp
  moreover have "successCount s' = successCount s + succeeded (oc # rs)"
    using rs(4) succeeded_append [of "[oc]" rs] by simp
  ultimately show ?case by blast
qed


subsection \<open>The run after validation\<close>

lemma load_images_trace:
  assumes "load_images h a b [] = (r, tr0)"
  shows "docker_calls tr0 = [] \<and> outputs tr0 = []"
  using assms
  by (auto simp: load_images_def Let_def outputs_def split: if_splits sum.splits)

lemma run_after_validation:
  assumes "(a = []) \<noteq> (b = [])"
    and "load_images h a b [] = (Inr images, tr0)"
    and "validate images = None"
  shows "run h a b =
     (case run_loop h (length images) 0 images (loop_start images tr0) of
        (None, s') \<Rightarrow> report h (length images) s'
      | (Some e, s') \<Rightarrow> s'\<lparr>trace := trace s' @ [SetFailed (''Action failed with error: '' @ e)]\<rparr>)"
proof -
  obtain r s' where loop: "run_loop h (length images) 0 images (loop_start images tr0) = (r, s')"
    by (cases "run_loop h (length images) 0 images (loop_start images tr0)")
  then have "run_loop h (length images) 0 images
      (initial (tr0 @ [Info (Starting (length images))])) = (r, s')"
    by (simp add: loop_start_def)
  with assms show ?thesis
    by (cases r) (auto simp: run_def run_body_def loop)
qed

lemma report_fields:
  "results (report h n s) = results s" "successCount (report h n s) = successCount s"
  "pull_calls (trace (report h n s)) = pull_calls (trace s)"
  by (simp_all add: report_def Let_def pull_calls_def)

lemma report_outputs:
  "outputs (trace (report h n s)) = outputs (trace s) @
     [SetOutput ''results'' (stringify_results h (results s)),
      SetOutput ''success-count'' (toString (int (successCount s))),
      SetOutput ''total-count'' (toString (int n))] @
     (if successCount s = n then []
      else [SetFailed (''Failed to sync '' @ toString (int n - int (successCount s)) @ '' out of ''
              @ toString (int n) @ '' image(s)'')])"
  by (simp add: report_def Let_def outputs_def sync_failed_def)

lemma loop_start_fields:
  assumes "load_images h a b [] = (r, tr0)"
  shows "results (loop_start images tr0) = []" "successCount (loop_start images tr0) = 0"
    "outputs (trace (loop_start images tr0)) = []" "pull_calls (trace (loop_start images tr0)) = []"
  using load_images_trace [OF assms]
  by (simp_all add: loop_start_def initial_def outputs_def pull_calls_def)

text \<open>
  When the loop completes, the run ends with the report, one outcome per image in input
  order, the successes counted, and nothing written before the report.
\<close>

lemma run_completed:
  assumes one: "(a = []) \<noteq> (b = [])"
    and load: "load_images h a b [] = (Inr images, tr0)"
    and valid: "validate images = None"
    and completes: "fst (run_loop h (length images) 0 images (loop_start images tr0)) = None"
  shows "\<exists>s'. run h a b = report h (length images) s'
     \<and> map source (results s') = map (\<lambda>img. prop_of img ''source'') images
     \<and> map destination (results s') = map (\<lambda>img. prop_of img ''destination'') images
     \<and> successCount s' = succeeded (results s')
     \<and> outputs (trace s') = []"
proof -
  let ?s0 = "loop_start images tr0"
  obtain s' where loop: "run_loop h (length images) 0 images ?s0 = (None, s')"
    using completes by (cases "run_loop h (length images) 0 images ?s0") simp
  obtain rs where rs: "results s' = results ?s0 @ rs"
    "map source rs = map (\<lambda>img. prop_of img ''source'') images"
    "map destination rs = map (\<lambda>img. prop_of img ''destination'') images"
    "successCount s' = successCount ?s0 + succeeded rs"
    using run_loop_results [OF valid loop] by blast
  obtain ext where ext: "trace s' = trace ?s0 @ ext" "outputs ext = []"
    using run_loop_trace [OF valid, of h "length images" 0 ?s0] by (auto simp: loop)
  note start = loop_start_fields [OF load, of images]
  have "run h a b = report h (length images) s'"
    by (simp add: run_after_validation [OF one load valid] loop)
  moreover have "map source (results s') = map (\<lambda>img. prop_of img ''source'') images"
    "map destination (results s') = map (\<lambda>img. prop_of img ''destination'') images"
    "successCount s' = succeeded (results s')"
    using rs by (simp_all add: start)
  moreover have "outputs (trace s') = []"
    using ext by (simp add: start)
  ultimately show ?thesis by blast
qed

text \<open>
  The general case of C2: when every source and destination converts to a string, the run
  ends with one outcome per image, in input order; when every architecture converts too, a
  pull is made for every image, in input order.
\<close>

lemma printable_images_processed:
  assumes "(a = []) \<noteq> (b = [])"
    and "load_images h a b [] = (Inr images, tr0)"
    and "validate images = None"
    and "\<forall>img \<in> set images. printable h (prop_of img ''source'')
           \<and> printable h (prop_of img ''destination'')"
  shows "length (results (run h a b)) = length images
     \<and> map source (results (run h a b)) = map (\<lambda>img. prop_of img ''source'') images
     \<and> map destination (results (run h a b)) = map (\<lambda>img. prop_of img ''destination'') images"
proof -
  have "fst (run_loop h (length images) 0 images (loop_start images tr0)) = None"
    using assms(4) by (simp add: run_loop_completes_iff [OF assms(3)])
  from run_completed [OF assms(1-3) this]
  obtain s' where r: "run h a b = report h (length images) s'"
    and src: "map source (results s') = map (\<lambda>img. prop_of img ''source'') images"
    and dst: "map destination (results s') = map (\<lambda>img. prop_of img ''destination'') images"
    by blast
  have "length (results s') = length images"
    using arg_cong [OF src, of length] by simp
  then show ?thesis
    using src dst by (simp add: r report_fields)
qed

text \<open>
  The general case of C6: when the loop completes, the run writes the three outputs, and
  the failure message exactly when an image failed.
\<close>

lemma report_when_loop_completes:
  assumes "(a = []) \<noteq> (b = [])"
    and "load_images h a b [] = (Inr images, tr0)"
    and "validate images = None"
    and "fst (run_loop h (length images) 0 images (loop_start images tr0)) = None"
  shows "outputs (trace (run h a b)) =
       [SetOutput ''results'' (stringify_results h (results (run h a b))),
        SetOutput ''success-count'' (toString (int (successCount (run h a b)))),
        SetOutput ''total-count'' (toString (int (length images)))] @
       (if successCount (run h a b) = length images then []
        else [SetFailed (''Failed to sync ''
                @ toString (int (length images) - int (successCount (run h a b)))
                @ '' out of '' @ toString (int (length images)) @ '' image(s)'')])
     \<and> int (length images) - int (successCount (run h a b)) = int (failed (results (run h a b)))"
proof -
  obtain s' where r: "run h a b = report h (length images) s'"
    and src: "map source (results s') = map (\<lambda>im. prop_of im ''source'') images"
    and cnt: "successCount s' = succeeded (results s')"
    and out: "outputs (trace s') = []"
    using run_completed [OF assms] by blast
  have len: "length (results s') = length images"
    using arg_cong [OF src, of length] by simp
  have "int (length images) - int (successCount s') = int (failed (results s'))"
    using succeeded_failed [of "results s'"] by (simp add: cnt len)
  then show ?thesis
    by (simp add: r report_fields report_outputs out)
qed

text \<open>
  An element that is neither \<^verbatim>\<open>null\<close> nor \<^verbatim>\<open>undefined\<close> and lacks a truthy field is
  rejected with the message of line 40, before the loop starts.
\<close>

lemma get_prop_not_null:
  "img \<noteq> JNull \<Longrightarrow> img \<noteq> JUndefined \<Longrightarrow> get_prop img k = Inr (prop_of img k)"
  by (cases img) simp_all

lemma validate_missing_field:
  assumes "\<forall>img \<in> set images. img \<noteq> JNull \<and> img \<noteq> JUndefined"
    and "\<exists>img \<in> set images. \<not> (truthy (prop_of img ''source'')
           \<and> truthy (prop_of img ''destination'') \<and> truthy (prop_of img ''architecture''))"
  shows "validate images = Some missing_fields"
  using assms
proof (induction images)
  case Nil
  then show ?case by simp
next
  case (Cons img rest)
  then show ?case
    by (auto simp: get_prop_not_null)
qed

lemma missing_field_fails_run:
  assumes "(a = []) \<noteq> (b = [])"
    and "load_images h a b [] = (Inr images, tr0)"
    and "\<forall>img \<in> set images. img \<noteq> JNull \<and> img \<noteq> JUndefined"
    and "\<exists>img \<in> set images. \<not> (truthy (prop_of img ''source'')
           \<and> truthy (prop_of img ''destination'') \<and> truthy (prop_of img ''architecture''))"
  shows "run h a b =
     \<lparr>results = [], successCount = 0,
      trace = tr0 @ [SetFailed (''Action failed with error: '' @ missing_fields)]\<rparr>"
  using assms(1,2) validate_missing_field [OF assms(3,4)]
  by (auto simp: run_def run_body_def initial_def)

subsection \<open>Values that do not convert to a string\<close>

text \<open>
  An architecture that does not convert fails its image before any docker call, with the
  TypeError as the outcome's error. A source or destination that does not convert makes the
  \<^verbatim>\<open>catch\<close> throw as well (lemma \<open>run_iteration_unprintable\<close>): the error leaves the loop.
\<close>

lemma unprintable_architecture_fails_image:
  assumes "archInfo h arch = Inl e" and "to_string h src = Inr ss" and "to_string h dst = Inr ds"
  shows "run_iteration h n i src dst arch s =
     (Inr (),
      \<lparr>results = results s @
         [\<lparr>source = src, destination = dst, digest = [], image_size = [],
           status = Failed, error = Some e\<rparr>],
       successCount = successCount s,
       trace = trace s @ [LogError (MirrorFailed ss ds e)]\<rparr>)"
  by (simp add: run_iteration_def try_body_archInfo_throws [OF assms(1)]
      catch_body_logs [OF assms(2,3)])

subsection \<open>The examples, evaluated\<close>

lemmas example_defs = example_host_def example_docker_def example_parse_def
  digest_args_def size_args_def pull_args_def tag_args_def push_args_def

lemmas a_defs = pull_a_def tag_a_def push_a_def digest_b_def size_b_def

lemmas x_defs = pull_x_def tag_x_def push_x_def

lemma example_host_simps:
  "read_file (example_host bad) p = (if p = ''images.json'' then Inr ''[]'' else Inl ''ENOENT'')"
  "json_parse (example_host bad) = example_parse"
  "docker (example_host bad) = example_docker bad"
  "stringify (example_host bad) oc = ''{}''"
  "trim (example_host bad) = ascii_trim"
  by (simp_all add: example_host_def)

lemma a_args:
  "pull_args (JStr ''a:1'') (JStr ''linux/amd64'') = pull_a"
  "tag_args (JStr ''a:1'') (JStr ''b:1'') = tag_a" "push_args (JStr ''b:1'') = push_a"
  "digest_args (JStr ''b:1'') = digest_b" "size_args (JStr ''b:1'') = size_b"
  by (simp_all add: pull_args_def tag_args_def push_args_def digest_args_def size_args_def a_defs)

lemma x_args:
  "pull_args (JStr ''x:1'') (JStr ''linux/arm64'') = pull_x"
  "tag_args (JStr ''x:1'') (JStr ''y:1'') = tag_x" "push_args (JStr ''y:1'') = push_x"
  by (simp_all add: pull_args_def tag_args_def push_args_def x_defs)

lemma converted_examples:
  "to_string h (JStr s) = Inr s"
  "archInfo h (JStr ''linux/amd64'') = Inr '' (linux/amd64)''"
  "archInfo h (JStr ''linux/arm64'') = Inr '' (linux/arm64)''"
  by (simp_all add: archInfo_def)

lemma trim_examples:
  "ascii_trim (''b@sha256:0a'' @ [CHR 0x0A]) = ''b@sha256:0a''"
  "ascii_trim (''1234'' @ [CHR 0x0A]) = ''1234''"
  by (simp_all add: ascii_trim_def is_space_def)

lemma prop_examples:
  "prop_of img_a ''source'' = JStr ''a:1''" "prop_of img_a ''destination'' = JStr ''b:1''"
  "prop_of img_a ''architecture'' = JStr ''linux/amd64''"
  "prop_of img_x ''source'' = JStr ''x:1''" "prop_of img_x ''destination'' = JStr ''y:1''"
  "prop_of img_x ''architecture'' = JStr ''linux/arm64''"
  by (simp_all add: img_a_def img_x_def)

lemma printable_examples:
  "\<forall>img \<in> set [img_a, img_x]. printable h (prop_of img ''source'')
     \<and> printable h (prop_of img ''destination'') \<and> printable h (prop_of img ''architecture'')"
  by (simp add: prop_examples printable_def)

lemma validate_examples: "validate [img_a, img_x] = None"
  by (simp add: img_a_def img_x_def)

lemma load_example:
  "load_images (example_host bad) two_images [] [] = (Inr [img_a, img_x], [])"
  by (simp add: load_images_def example_host_def example_parse_def two_images_def)

lemma two_images_supplied: "two_images \<noteq> []"
  by (simp add: two_images_def)

lemma one_input: "(two_images = []) \<noteq> (([] :: string) = [])"
  by (simp add: two_images_supplied)

lemma loop_completes_example:
  "fst (run_loop (example_host bad) (length [img_a, img_x]) 0 [img_a, img_x]
          (loop_start [img_a, img_x] [])) = None"
  using printable_examples [of "example_host bad"]
  by (simp only: run_loop_completes_iff [OF validate_examples]) simp

lemma digits_examples: "digits 0 = ''0''" "digits 1 = ''1''" "digits 2 = ''2''"
  by (simp_all add: digits.simps)

lemma digits_Suc_0: "digits (Suc 0) = ''1''"
  by (simp add: digits.simps)

lemma run_second_pull_fails:
  "run (example_host [pull_x]) two_images [] =
     \<lparr>results =
        [\<lparr>source = JStr ''a:1'', destination = JStr ''b:1'', digest = ''b@sha256:0a'',
          image_size = ''1234'', status = Success, error = None\<rparr>,
         \<lparr>source = JStr ''x:1'', destination = JStr ''y:1'', digest = [], image_size = [],
          status = Failed, error = Some ''exit code 1''\<rparr>],
      successCount = 1,
      trace =
        [Info (Starting 2),
         Info (Processing 1 2 ''a:1'' ''b:1'' '' (linux/amd64)''),
         Info (Pulling ''a:1'' '' (linux/amd64)''),
         Exec pull_a, Info (Tagging ''b:1''), Exec tag_a,
         Info (Pushing ''b:1''), Exec push_a,
         GetExecOutput digest_b, GetExecOutput size_b,
         Info (Mirrored ''a:1'' ''b:1''),
         Info (Processing 2 2 ''x:1'' ''y:1'' '' (linux/arm64)''),
         Info (Pulling ''x:1'' '' (linux/arm64)''),
         Exec pull_x,
         LogError (MirrorFailed ''x:1'' ''y:1'' ''exit code 1''),
         SetOutput ''results'' ''[{},{}]'', SetOutput ''success-count'' ''1'',
         SetOutput ''total-count'' ''2'', LogError (SomeMirrored 1 2),
         SetFailed ''Failed to sync 1 out of 2 image(s)'']\<rparr>"
  by code_simp

section \<open>The claims\<close>

subsection \<open>C1: the two inspect queries\<close>

text \<open>
  C1, as the code has it. The digest is queried first and the size second, inside one
  guarded block. If the digest query fails, the size query is not made and both fields are
  empty. If the digest query succeeds, the size query is made; its failure leaves the
  digest already retrieved in place and the size empty. Each failure logs one warning.
\<close>

theorem getImageInfo_digest_then_size:
  "(docker h (docker_calls tr) (digest_args img) = Inl e \<longrightarrow>
      getImageInfo h img tr =
        (\<lparr>info_digest = [], info_size = []\<rparr>,
         tr @ [GetExecOutput (digest_args img), Warning (NoImageInfo e)]))
   \<and> (docker h (docker_calls tr) (digest_args img) = Inr d
        \<and> docker h (docker_calls tr @ [digest_args img]) (size_args img) = Inl e \<longrightarrow>
      getImageInfo h img tr =
        (\<lparr>info_digest = trim h d, info_size = []\<rparr>,
         tr @ [GetExecOutput (digest_args img), GetExecOutput (size_args img),
               Warning (NoImageInfo e)]))
   \<and> (docker h (docker_calls tr) (digest_args img) = Inr d
        \<and> docker h (docker_calls tr @ [digest_args img]) (size_args img) = Inr z \<longrightarrow>
      getImageInfo h img tr =
        (\<lparr>info_digest = trim h d, info_size = trim h z\<rparr>,
         tr @ [GetExecOutput (digest_args img), GetExecOutput (size_args img)]))"
  by (simp add: getImageInfo_digest_fails getImageInfo_size_fails getImageInfo_ok)

theorem getImageInfo_digest_then_size_witness:
  "docker (example_host [digest_b]) [] digest_b = Inl ''exit code 1''
   \<and> getImageInfo (example_host [digest_b]) (JStr ''b:1'') [] =
        (\<lparr>info_digest = [], info_size = []\<rparr>,
         [GetExecOutput digest_b, Warning (NoImageInfo ''exit code 1'')])
   \<and> docker (example_host [size_b]) [] digest_b = Inr (''b@sha256:0a'' @ [CHR 0x0A])
   \<and> docker (example_host [size_b]) [digest_b] size_b = Inl ''exit code 1''
   \<and> getImageInfo (example_host [size_b]) (JStr ''b:1'') [] =
        (\<lparr>info_digest = ''b@sha256:0a'', info_size = []\<rparr>,
         [GetExecOutput digest_b, GetExecOutput size_b, Warning (NoImageInfo ''exit code 1'')])
   \<and> docker (example_host []) [digest_b] size_b = Inr (''1234'' @ [CHR 0x0A])
   \<and> getImageInfo (example_host []) (JStr ''b:1'') [] =
        (\<lparr>info_digest = ''b@sha256:0a'', info_size = ''1234''\<rparr>,
         [GetExecOutput digest_b, GetExecOutput size_b])"
proof -
  have d: "docker (example_host [digest_b]) [] digest_b = Inl ''exit code 1''"
    "docker (example_host [size_b]) [] digest_b = Inr (''b@sha256:0a'' @ [CHR 0x0A])"
    "docker (example_host [size_b]) [digest_b] size_b = Inl ''exit code 1''"
    "docker (example_host []) [] digest_b = Inr (''b@sha256:0a'' @ [CHR 0x0A])"
    "docker (example_host []) [digest_b] size_b = Inr (''1234'' @ [CHR 0x0A])"
    by (simp_all add: example_defs a_defs)
  have t: "trim (example_host bad) (''b@sha256:0a'' @ [CHR 0x0A]) = ''b@sha256:0a''"
    "trim (example_host bad) (''1234'' @ [CHR 0x0A]) = ''1234''" for bad
    by (simp_all only: example_host_simps trim_examples)
  have g1: "getImageInfo (example_host [digest_b]) (JStr ''b:1'') [] =
        (\<lparr>info_digest = [], info_size = []\<rparr>,
         [GetExecOutput digest_b, Warning (NoImageInfo ''exit code 1'')])"
    using d(1) getImageInfo_digest_then_size [of "example_host [digest_b]" "[]" "JStr ''b:1''"
        "''exit code 1''"]
    by (simp add: a_args)
  have g2: "getImageInfo (example_host [size_b]) (JStr ''b:1'') [] =
        (\<lparr>info_digest = ''b@sha256:0a'', info_size = []\<rparr>,
         [GetExecOutput digest_b, GetExecOutput size_b, Warning (NoImageInfo ''exit code 1'')])"
    using d(2,3) t [of "[size_b]"]
      getImageInfo_digest_then_size [of "example_host [size_b]" "[]" "JStr ''b:1''"
        "''exit code 1''" "''b@sha256:0a'' @ [CHR 0x0A]"]
    by (simp add: a_args)
  have g3: "getImageInfo (example_host []) (JStr ''b:1'') [] =
        (\<lparr>info_digest = ''b@sha256:0a'', info_size = ''1234''\<rparr>,
         [GetExecOutput digest_b, GetExecOutput size_b])"
    using d(4,5) t [of "[]"]
      getImageInfo_digest_then_size [of "example_host []" "[]" "JStr ''b:1''" _
        "''b@sha256:0a'' @ [CHR 0x0A]" "''1234'' @ [CHR 0x0A]"]
    by (simp add: a_args)
  show ?thesis
    by (intro conjI d(1,2,3,5) g1 g2 g3)
qed

text \<open>
  C1 as stated does not hold: with a docker whose digest query fails and whose size query
  would succeed, the size query is never made, and the size stays empty.
\<close>

theorem digest_failure_blocks_size_query:
  "docker (example_host [digest_args (JStr ''b:1'')]) [] (digest_args (JStr ''b:1'')) = Inl ''exit code 1''
   \<and> docker (example_host [digest_args (JStr ''b:1'')]) [digest_args (JStr ''b:1'')]
        (size_args (JStr ''b:1'')) = Inr (''1234'' @ [CHR 0x0A])
   \<and> GetExecOutput (size_args (JStr ''b:1'')) \<notin>
        set (snd (getImageInfo (example_host [digest_args (JStr ''b:1'')]) (JStr ''b:1'') []))
   \<and> info_size (fst (getImageInfo (example_host [digest_args (JStr ''b:1'')]) (JStr ''b:1'') [])) = []"
  by (simp add: example_defs getImageInfo_def getExecOutput_def)

subsection \<open>C2: one outcome per image, in order\<close>

text \<open>
  C2. Every validated image should get exactly one outcome, and a failure of one image
  should never keep the next from being attempted. The code does not do this for a source
  (or destination) that cannot be converted to a string, which validation lets through:
  with the validated list of \<^verbatim>\<open>{"source":{"toString":1},...}\<close> and a second, ordinary image,
  the template literal of line 54 throws inside the \<^verbatim>\<open>try\<close>, the one of line 85 throws
  again inside the \<^verbatim>\<open>catch\<close>, and the error leaves the loop: the run ends with no outcome
  for either image, no docker call and no output. (Lemma \<open>printable_images_processed\<close> above
  is the general case for sources and destinations that convert.)
\<close>

theorem unprintable_source_leaves_loop:
  "unprintable_first \<noteq> []
   \<and> json_parse (example_host []) unprintable_first = Inr (JArr [img_t, img_x])
   \<and> validate [img_t, img_x] = None
   \<and> run (example_host []) unprintable_first [] =
       \<lparr>results = [], successCount = 0,
        trace = [Info (Starting 2),
                 SetFailed ''Action failed with error: Cannot convert object to primitive value'']\<rparr>"
  by code_simp

subsection \<open>C3: the counts\<close>

text \<open>
  C3. After the loop completes, \<^verbatim>\<open>successCount\<close> is the number of outcomes with status
  success, the run writes the \<^verbatim>\<open>success-count\<close> output once, with that number, and the
  \<^verbatim>\<open>total-count\<close> output once, with the number of validated images, and the former is at
  most the latter (and, a natural number, at least 0). By lemma \<open>run_loop_completes_iff\<close>
  the loop completes exactly when every source and destination converts to a string.
\<close>

theorem counts_reported:
  assumes "(a = []) \<noteq> (b = [])"
    and "load_images h a b [] = (Inr images, tr0)"
    and "validate images = None"
    and "fst (run_loop h (length images) 0 images (loop_start images tr0)) = None"
  shows "successCount (run h a b) = succeeded (results (run h a b))
     \<and> output_values ''success-count'' (trace (run h a b))
          = [toString (int (succeeded (results (run h a b))))]
     \<and> output_values ''total-count'' (trace (run h a b)) = [toString (int (length images))]
     \<and> successCount (run h a b) \<le> length images"
proof -
  obtain s' where r: "run h a b = report h (length images) s'"
    and src: "map source (results s') = map (\<lambda>im. prop_of im ''source'') images"
    and cnt: "successCount s' = succeeded (results s')"
    and out: "outputs (trace s') = []"
    using run_completed [OF assms] by blast
  have len: "length (results s') = length images"
    using arg_cong [OF src, of length] by simp
  have le: "successCount s' \<le> length images"
    using succeeded_le [of "results s'"] by (simp add: cnt len)
  have "output_values k (trace (report h (length images) s'))
      = output_values k (outputs (trace (report h (length images) s')))" for k
    by (simp only: output_values_outputs)
  then have "output_values ''success-count'' (trace (report h (length images) s'))
      = [toString (int (succeeded (results s')))]"
    "output_values ''total-count'' (trace (report h (length images) s'))
      = [toString (int (length images))]"
    by (simp_all add: report_outputs out cnt)
  then show ?thesis
    using cnt le by (simp add: r report_fields)
qed

theorem counts_reported_witness:
  "(two_images = []) \<noteq> (([] :: string) = [])
   \<and> load_images (example_host [pull_x]) two_images [] [] = (Inr [img_a, img_x], [])
   \<and> validate [img_a, img_x] = None
   \<and> fst (run_loop (example_host [pull_x]) (length [img_a, img_x]) 0 [img_a, img_x]
            (loop_start [img_a, img_x] [])) = None
   \<and> successCount (run (example_host [pull_x]) two_images []) = 1
   \<and> succeeded (results (run (example_host [pull_x]) two_images [])) = 1
   \<and> output_values ''success-count'' (trace (run (example_host [pull_x]) two_images [])) = [''1'']
   \<and> output_values ''total-count'' (trace (run (example_host [pull_x]) two_images [])) = [''2'']"
proof -
  note t = counts_reported [OF one_input load_example validate_examples loop_completes_example,
      of "[pull_x]"]
  have c: "successCount (run (example_host [pull_x]) two_images []) = 1"
    by (simp add: run_second_pull_fails)
  have s: "succeeded (results (run (example_host [pull_x]) two_images [])) = 1"
    using t c by simp
  have o1: "output_values ''success-count'' (trace (run (example_host [pull_x]) two_images []))
      = [''1'']"
    using t by (simp add: s toString_def digits_Suc_0)
  have o2: "output_values ''total-count'' (trace (run (example_host [pull_x]) two_images []))
      = [''2'']"
    using t by (simp add: toString_def digits_examples)
  show ?thesis
    by (intro conjI one_input load_example validate_examples loop_completes_example c s o1 o2)
qed

subsection \<open>C4: a failing pull, tag or push\<close>

text \<open>
  C4. A docker step is reached only after lines 53 and 54 have converted the architecture,
  the source and the destination to strings. Then, if the pull fails, or the pull succeeds
  and the tag fails, or both succeed and the push fails, the iteration completes, appends
  one outcome with status failed, the message of the error, and empty digest and size; it
  leaves \<^verbatim>\<open>successCount\<close> unchanged; and the docker calls it made end with the failing one:
  no later step is attempted.
\<close>

theorem failed_step_aborts_image:
  assumes "archInfo h arch = Inr info" and "to_string h src = Inr ss"
    and "to_string h dst = Inr ds"
  shows "(docker h (docker_calls (trace s)) (pull_args src arch) = Inl e \<longrightarrow>
      run_iteration h n i src dst arch s =
        (Inr (),
         \<lparr>results = results s @
            [\<lparr>source = src, destination = dst, digest = [], image_size = [],
              status = Failed, error = Some e\<rparr>],
          successCount = successCount s,
          trace = trace s @ before_pull n i ss ds info @
            [Exec (pull_args src arch), LogError (MirrorFailed ss ds e)]\<rparr>))
   \<and> (docker h (docker_calls (trace s)) (pull_args src arch) = Inr out1
        \<and> docker h (docker_calls (trace s) @ [pull_args src arch]) (tag_args src dst) = Inl e \<longrightarrow>
      run_iteration h n i src dst arch s =
        (Inr (),
         \<lparr>results = results s @
            [\<lparr>source = src, destination = dst, digest = [], image_size = [],
              status = Failed, error = Some e\<rparr>],
          successCount = successCount s,
          trace = trace s @ before_pull n i ss ds info @
            [Exec (pull_args src arch), Info (Tagging ds), Exec (tag_args src dst),
             LogError (MirrorFailed ss ds e)]\<rparr>))
   \<and> (docker h (docker_calls (trace s)) (pull_args src arch) = Inr out1
        \<and> docker h (docker_calls (trace s) @ [pull_args src arch]) (tag_args src dst) = Inr out2
        \<and> docker h (docker_calls (trace s) @ [pull_args src arch, tag_args src dst])
              (push_args dst) = Inl e \<longrightarrow>
      run_iteration h n i src dst arch s =
        (Inr (),
         \<lparr>results = results s @
            [\<lparr>source = src, destination = dst, digest = [], image_size = [],
              status = Failed, error = Some e\<rparr>],
          successCount = successCount s,
          trace = trace s @ before_pull n i ss ds info @
            [Exec (pull_args src arch), Info (Tagging ds), Exec (tag_args src dst),
             Info (Pushing ds), Exec (push_args dst),
             LogError (MirrorFailed ss ds e)]\<rparr>))"
proof (intro conjI impI)
  assume "docker h (docker_calls (trace s)) (pull_args src arch) = Inl e"
  from try_body_pull_fails [OF assms this]
  show "run_iteration h n i src dst arch s =
        (Inr (),
         \<lparr>results = results s @
            [\<lparr>source = src, destination = dst, digest = [], image_size = [],
              status = Failed, error = Some e\<rparr>],
          successCount = successCount s,
          trace = trace s @ before_pull n i ss ds info @
            [Exec (pull_args src arch), LogError (MirrorFailed ss ds e)]\<rparr>)"
    by (simp add: run_iteration_def catch_body_logs [OF assms(2,3)])
next
  assume a: "docker h (docker_calls (trace s)) (pull_args src arch) = Inr out1
        \<and> docker h (docker_calls (trace s) @ [pull_args src arch]) (tag_args src dst) = Inl e"
  from try_body_tag_fails [OF assms conjunct1 [OF a] conjunct2 [OF a]]
  show "run_iteration h n i src dst arch s =
        (Inr (),
         \<lparr>results = results s @
            [\<lparr>source = src, destination = dst, digest = [], image_size = [],
              status = Failed, error = Some e\<rparr>],
          successCount = successCount s,
          trace = trace s @ before_pull n i ss ds info @
            [Exec (pull_args src arch), Info (Tagging ds), Exec (tag_args src dst),
             LogError (MirrorFailed ss ds e)]\<rparr>)"
    by (simp add: run_iteration_def catch_body_logs [OF assms(2,3)])
next
  assume a: "docker h (docker_calls (trace s)) (pull_args src arch) = Inr out1
        \<and> docker h (docker_calls (trace s) @ [pull_args src arch]) (tag_args src dst) = Inr out2
        \<and> docker h (docker_calls (trace s) @ [pull_args src arch, tag_args src dst])
              (push_args dst) = Inl e"
  from try_body_push_fails [OF assms conjunct1 [OF a] conjunct1 [OF conjunct2 [OF a]]
      conjunct2 [OF conjunct2 [OF a]]]
  show "run_iteration h n i src dst arch s =
        (Inr (),
         \<lparr>results = results s @
            [\<lparr>source = src, destination = dst, digest = [], image_size = [],
              status = Failed, error = Some e\<rparr>],
          successCount = successCount s,
          trace = trace s @ before_pull n i ss ds info @
            [Exec (pull_args src arch), Info (Tagging ds), Exec (tag_args src dst),
             Info (Pushing ds), Exec (push_args dst),
             LogError (MirrorFailed ss ds e)]\<rparr>)"
    by (simp add: run_iteration_def catch_body_logs [OF assms(2,3)])
qed

theorem failed_step_aborts_image_witness:
  "archInfo (example_host [pull_x]) (JStr ''linux/arm64'') = Inr '' (linux/arm64)''
   \<and> to_string (example_host [pull_x]) (JStr ''x:1'') = Inr ''x:1''
   \<and> to_string (example_host [pull_x]) (JStr ''y:1'') = Inr ''y:1''
   \<and> docker (example_host [pull_x]) [] pull_x = Inl ''exit code 1''
   \<and> run_iteration (example_host [pull_x]) 2 1 (JStr ''x:1'') (JStr ''y:1'') (JStr ''linux/arm64'')
        (initial []) =
        (Inr (),
         \<lparr>results = [\<lparr>source = JStr ''x:1'', destination = JStr ''y:1'', digest = [],
                       image_size = [], status = Failed, error = Some ''exit code 1''\<rparr>],
          successCount = 0,
          trace = [Info (Processing 2 2 ''x:1'' ''y:1'' '' (linux/arm64)''),
                   Info (Pulling ''x:1'' '' (linux/arm64)''),
                   Exec pull_x,
                   LogError (MirrorFailed ''x:1'' ''y:1'' ''exit code 1'')]\<rparr>)
   \<and> docker (example_host [tag_x]) [] pull_x = Inr []
   \<and> docker (example_host [tag_x]) [pull_x] tag_x = Inl ''exit code 1''
   \<and> run_iteration (example_host [tag_x]) 2 1 (JStr ''x:1'') (JStr ''y:1'') (JStr ''linux/arm64'')
        (initial []) =
        (Inr (),
         \<lparr>results = [\<lparr>source = JStr ''x:1'', destination = JStr ''y:1'', digest = [],
                       image_size = [], status = Failed, error = Some ''exit code 1''\<rparr>],
          successCount = 0,
          trace = [Info (Processing 2 2 ''x:1'' ''y:1'' '' (linux/arm64)''),
                   Info (Pulling ''x:1'' '' (linux/arm64)''),
                   Exec pull_x, Info (Tagging ''y:1''), Exec tag_x,
                   LogError (MirrorFailed ''x:1'' ''y:1'' ''exit code 1'')]\<rparr>)
   \<and> docker (example_host [push_x]) [pull_x] tag_x = Inr []
   \<and> docker (example_host [push_x]) [pull_x, tag_x] push_x = Inl ''exit code 1''
   \<and> run_iteration (example_host [push_x]) 2 1 (JStr ''x:1'') (JStr ''y:1'') (JStr ''linux/arm64'')
        (initial []) =
        (Inr (),
         \<lparr>results = [\<lparr>source = JStr ''x:1'', destination = JStr ''y:1'', digest = [],
                       image_size = [], status = Failed, error = Some ''exit code 1''\<rparr>],
          successCount = 0,
          trace = [Info (Processing 2 2 ''x:1'' ''y:1'' '' (linux/arm64)''),
                   Info (Pulling ''x:1'' '' (linux/arm64)''),
                   Exec pull_x, Info (Tagging ''y:1''), Exec tag_x,
                   Info (Pushing ''y:1''), Exec push_x,
                   LogError (MirrorFailed ''x:1'' ''y:1'' ''exit code 1'')]\<rparr>)"
proof -
  have c: "archInfo h (JStr ''linux/arm64'') = Inr '' (linux/arm64)''"
    "to_string h (JStr ''x:1'') = Inr ''x:1''" "to_string h (JStr ''y:1'') = Inr ''y:1''" for h
    by (simp_all add: converted_examples)
  have d: "docker (example_host [pull_x]) [] pull_x = Inl ''exit code 1''"
    "docker (example_host [tag_x]) [] pull_x = Inr []"
    "docker (example_host [tag_x]) [pull_x] tag_x = Inl ''exit code 1''"
    "docker (example_host [push_x]) [] pull_x = Inr []"
    "docker (example_host [push_x]) [pull_x] tag_x = Inr []"
    "docker (example_host [push_x]) [pull_x, tag_x] push_x = Inl ''exit code 1''"
    by (simp_all add: example_defs x_defs)
  note t = failed_step_aborts_image [OF c, where s = "initial []" and n = 2 and i = 1
      and e = "''exit code 1''" and ?out1.0 = "[]" and ?out2.0 = "[]"]
  have r1: "run_iteration (example_host [pull_x]) 2 1 (JStr ''x:1'') (JStr ''y:1'')
        (JStr ''linux/arm64'') (initial []) =
        (Inr (),
         \<lparr>results = [\<lparr>source = JStr ''x:1'', destination = JStr ''y:1'', digest = [],
                       image_size = [], status = Failed, error = Some ''exit code 1''\<rparr>],
          successCount = 0,
          trace = [Info (Processing 2 2 ''x:1'' ''y:1'' '' (linux/arm64)''),
                   Info (Pulling ''x:1'' '' (linux/arm64)''),
                   Exec pull_x,
                   LogError (MirrorFailed ''x:1'' ''y:1'' ''exit code 1'')]\<rparr>)"
    using d(1) t [of "example_host [pull_x]"] by (simp add: x_args initial_def before_pull_def)
  have r2: "run_iteration (example_host [tag_x]) 2 1 (JStr ''x:1'') (JStr ''y:1'')
        (JStr ''linux/arm64'') (initial []) =
        (Inr (),
         \<lparr>results = [\<lparr>source = JStr ''x:1'', destination = JStr ''y:1'', digest = [],
                       image_size = [], status = Failed, error = Some ''exit code 1''\<rparr>],
          successCount = 0,
          trace = [Info (Processing 2 2 ''x:1'' ''y:1'' '' (linux/arm64)''),
                   Info (Pulling ''x:1'' '' (linux/arm64)''),
                   Exec pull_x, Info (Tagging ''y:1''), Exec tag_x,
                   LogError (MirrorFailed ''x:1'' ''y:1'' ''exit code 1'')]\<rparr>)"
    using d(2,3) t [of "example_host [tag_x]"] by (simp add: x_args initial_def before_pull_def)
  have r3: "run_iteration (example_host [push_x]) 2 1 (JStr ''x:1'') (JStr ''y:1'')
        (JStr ''linux/arm64'') (initial []) =
        (Inr (),
         \<lparr>results = [\<lparr>source = JStr ''x:1'', destination = JStr ''y:1'', digest = [],
                       image_size = [], status = Failed, error = Some ''exit code 1''\<rparr>],
          successCount = 0,
          trace = [Info (Processing 2 2 ''x:1'' ''y:1'' '' (linux/arm64)''),
                   Info (Pulling ''x:1'' '' (linux/arm64)''),
                   Exec pull_x, Info (Tagging ''y:1''), Exec tag_x,
                   Info (Pushing ''y:1''), Exec push_x,
                   LogError (MirrorFailed ''x:1'' ''y:1'' ''exit code 1'')]\<rparr>)"
    using d(4,5,6) t [of "example_host [push_x]"]
    by (simp add: x_args initial_def before_pull_def)
  show ?thesis
    by (intro conjI c d(1,2,3,5,6) r1 r2 r3)
qed

subsection \<open>C5: a failing inspect\<close>

text \<open>
  C5, as the code has it. When pull, tag and push succeed (which they are asked to only
  after the architecture, the source and the destination have been converted to strings),
  a failure of an inspect query is not fatal: the iteration completes without an error,
  appends an outcome with status success and no error, counts it, and logs one warning. If
  the digest query is the one that fails, digest and size are both empty. If the size query
  fails, the size is empty and the digest keeps the value already retrieved.
\<close>

theorem inspect_failure_keeps_success:
  assumes "archInfo h arch = Inr info" and "to_string h src = Inr ss"
    and "to_string h dst = Inr ds"
    and "docker h (docker_calls (trace s)) (pull_args src arch) = Inr out1"
    and "docker h (docker_calls (trace s) @ [pull_args src arch]) (tag_args src dst) = Inr out2"
    and "docker h (docker_calls (trace s) @ [pull_args src arch, tag_args src dst])
           (push_args dst) = Inr out3"
  shows "(docker h (docker_calls (trace s) @ [pull_args src arch, tag_args src dst, push_args dst])
            (digest_args dst) = Inl e \<longrightarrow>
          run_iteration h n i src dst arch s =
            (Inr (),
             \<lparr>results = results s @
                [\<lparr>source = src, destination = dst, digest = [], image_size = [],
                  status = Success, error = None\<rparr>],
              successCount = successCount s + 1,
              trace = trace s @ steps_to_push n i src dst arch ss ds info @
                [GetExecOutput (digest_args dst), Warning (NoImageInfo e),
                 Info (Mirrored ss ds)]\<rparr>))
       \<and> (docker h (docker_calls (trace s) @ [pull_args src arch, tag_args src dst, push_args dst])
            (digest_args dst) = Inr d
          \<and> docker h (docker_calls (trace s) @
                [pull_args src arch, tag_args src dst, push_args dst, digest_args dst])
            (size_args dst) = Inl e \<longrightarrow>
          run_iteration h n i src dst arch s =
            (Inr (),
             \<lparr>results = results s @
                [\<lparr>source = src, destination = dst, digest = trim h d, image_size = [],
                  status = Success, error = None\<rparr>],
              successCount = successCount s + 1,
              trace = trace s @ steps_to_push n i src dst arch ss ds info @
                [GetExecOutput (digest_args dst), GetExecOutput (size_args dst),
                 Warning (NoImageInfo e), Info (Mirrored ss ds)]\<rparr>))"
proof -
  let ?tr4 = "trace s @ steps_to_push n i src dst arch ss ds info"
  have calls: "docker_calls (steps_to_push n i src dst arch ss ds info) =
      [pull_args src arch, tag_args src dst, push_args dst]"
    by (simp add: steps_to_push_def before_pull_def)
  note pushed = try_body_pushed [OF assms, of n i]
  show ?thesis
  proof (intro conjI impI)
    assume "docker h (docker_calls (trace s) @ [pull_args src arch, tag_args src dst, push_args dst])
              (digest_args dst) = Inl e"
    then have "getImageInfo h dst ?tr4 =
        (\<lparr>info_digest = [], info_size = []\<rparr>,
         ?tr4 @ [GetExecOutput (digest_args dst), Warning (NoImageInfo e)])"
      using getImageInfo_digest_fails [of h ?tr4 dst e] by (simp add: calls)
    from pushed [OF this]
    show "run_iteration h n i src dst arch s =
            (Inr (),
             \<lparr>results = results s @
                [\<lparr>source = src, destination = dst, digest = [], image_size = [],
                  status = Success, error = None\<rparr>],
              successCount = successCount s + 1,
              trace = trace s @ steps_to_push n i src dst arch ss ds info @
                [GetExecOutput (digest_args dst), Warning (NoImageInfo e),
                 Info (Mirrored ss ds)]\<rparr>)"
      by (simp add: run_iteration_def)
  next
    assume "docker h (docker_calls (trace s) @ [pull_args src arch, tag_args src dst, push_args dst])
            (digest_args dst) = Inr d
          \<and> docker h (docker_calls (trace s) @
                [pull_args src arch, tag_args src dst, push_args dst, digest_args dst])
            (size_args dst) = Inl e"
    then have "getImageInfo h dst ?tr4 =
        (\<lparr>info_digest = trim h d, info_size = []\<rparr>,
         ?tr4 @ [GetExecOutput (digest_args dst), GetExecOutput (size_args dst),
                 Warning (NoImageInfo e)])"
      using getImageInfo_size_fails [of h ?tr4 dst d e] by (simp add: calls)
    from pushed [OF this]
    show "run_iteration h n i src dst arch s =
            (Inr (),
             \<lparr>results = results s @
                [\<lparr>source = src, destination = dst, digest = trim h d, image_size = [],
                  status = Success, error = None\<rparr>],
              successCount = successCount s + 1,
              trace = trace s @ steps_to_push n i src dst arch ss ds info @
                [GetExecOutput (digest_args dst), GetExecOutput (size_args dst),
                 Warning (NoImageInfo e), Info (Mirrored ss ds)]\<rparr>)"
      by (simp add: run_iteration_def)
  qed
qed

theorem inspect_failure_keeps_success_witness:
  "archInfo (example_host [digest_b]) (JStr ''linux/amd64'') = Inr '' (linux/amd64)''
   \<and> to_string (example_host [digest_b]) (JStr ''a:1'') = Inr ''a:1''
   \<and> to_string (example_host [digest_b]) (JStr ''b:1'') = Inr ''b:1''
   \<and> docker (example_host [digest_b]) [] pull_a = Inr []
   \<and> docker (example_host [digest_b]) [pull_a] tag_a = Inr []
   \<and> docker (example_host [digest_b]) [pull_a, tag_a] push_a = Inr []
   \<and> docker (example_host [digest_b]) [pull_a, tag_a, push_a] digest_b = Inl ''exit code 1''
   \<and> run_iteration (example_host [digest_b]) 1 0 (JStr ''a:1'') (JStr ''b:1'') (JStr ''linux/amd64'')
        (initial []) =
        (Inr (),
         \<lparr>results = [\<lparr>source = JStr ''a:1'', destination = JStr ''b:1'', digest = [],
                       image_size = [], status = Success, error = None\<rparr>],
          successCount = 1,
          trace = [Info (Processing 1 1 ''a:1'' ''b:1'' '' (linux/amd64)''),
                   Info (Pulling ''a:1'' '' (linux/amd64)''),
                   Exec pull_a, Info (Tagging ''b:1''), Exec tag_a,
                   Info (Pushing ''b:1''), Exec push_a,
                   GetExecOutput digest_b, Warning (NoImageInfo ''exit code 1''),
                   Info (Mirrored ''a:1'' ''b:1'')]\<rparr>)
   \<and> docker (example_host [size_b]) [] pull_a = Inr []
   \<and> docker (example_host [size_b]) [pull_a] tag_a = Inr []
   \<and> docker (example_host [size_b]) [pull_a, tag_a] push_a = Inr []
   \<and> docker (example_host [size_b]) [pull_a, tag_a, push_a] digest_b
        = Inr (''b@sha256:0a'' @ [CHR 0x0A])
   \<and> docker (example_host [size_b]) [pull_a, tag_a, push_a, digest_b] size_b = Inl ''exit code 1''
   \<and> run_iteration (example_host [size_b]) 1 0 (JStr ''a:1'') (JStr ''b:1'') (JStr ''linux/amd64'')
        (initial []) =
        (Inr (),
         \<lparr>results = [\<lparr>source = JStr ''a:1'', destination = JStr ''b:1'',
                       digest = ''b@sha256:0a'', image_size = [], status = Success,
                       error = None\<rparr>],
          successCount = 1,
          trace = [Info (Processing 1 1 ''a:1'' ''b:1'' '' (linux/amd64)''),
                   Info (Pulling ''a:1'' '' (linux/amd64)''),
                   Exec pull_a, Info (Tagging ''b:1''), Exec tag_a,
                   Info (Pushing ''b:1''), Exec push_a,
                   GetExecOutput digest_b, GetExecOutput size_b,
                   Warning (NoImageInfo ''exit code 1''),
                   Info (Mirrored ''a:1'' ''b:1'')]\<rparr>)"
proof -
  have c: "archInfo h (JStr ''linux/amd64'') = Inr '' (linux/amd64)''"
    "to_string h (JStr ''a:1'') = Inr ''a:1''" "to_string h (JStr ''b:1'') = Inr ''b:1''" for h
    by (simp_all add: converted_examples)
  have d: "docker (example_host [digest_b]) [] pull_a = Inr []"
    "docker (example_host [digest_b]) [pull_a] tag_a = Inr []"
    "docker (example_host [digest_b]) [pull_a, tag_a] push_a = Inr []"
    "docker (example_host [digest_b]) [pull_a, tag_a, push_a] digest_b = Inl ''exit code 1''"
    by (simp_all add: example_defs a_defs)
  have z: "docker (example_host [size_b]) [] pull_a = Inr []"
    "docker (example_host [size_b]) [pull_a] tag_a = Inr []"
    "docker (example_host [size_b]) [pull_a, tag_a] push_a = Inr []"
    "docker (example_host [size_b]) [pull_a, tag_a, push_a] digest_b
       = Inr (''b@sha256:0a'' @ [CHR 0x0A])"
    "docker (example_host [size_b]) [pull_a, tag_a, push_a, digest_b] size_b = Inl ''exit code 1''"
    by (simp_all add: example_defs a_defs)
  have t: "trim (example_host [size_b]) (''b@sha256:0a'' @ [CHR 0x0A]) = ''b@sha256:0a''"
    by (simp only: example_host_simps trim_examples)
  have r1: "run_iteration (example_host [digest_b]) 1 0 (JStr ''a:1'') (JStr ''b:1'')
        (JStr ''linux/amd64'') (initial []) =
        (Inr (),
         \<lparr>results = [\<lparr>source = JStr ''a:1'', destination = JStr ''b:1'', digest = [],
                       image_size = [], status = Success, error = None\<rparr>],
          successCount = 1,
          trace = [Info (Processing 1 1 ''a:1'' ''b:1'' '' (linux/amd64)''),
                   Info (Pulling ''a:1'' '' (linux/amd64)''),
                   Exec pull_a, Info (Tagging ''b:1''), Exec tag_a,
                   Info (Pushing ''b:1''), Exec push_a,
                   GetExecOutput digest_b, Warning (NoImageInfo ''exit code 1''),
                   Info (Mirrored ''a:1'' ''b:1'')]\<rparr>)"
    using d
      inspect_failure_keeps_success [OF c, where h = "example_host [digest_b]"
        and s = "initial []" and ?out1.0 = "[]" and ?out2.0 = "[]" and ?out3.0 = "[]"
        and e = "''exit code 1''" and n = 1 and i = 0]
    by (simp add: a_args initial_def steps_to_push_def before_pull_def)
  have r2: "run_iteration (example_host [size_b]) 1 0 (JStr ''a:1'') (JStr ''b:1'')
        (JStr ''linux/amd64'') (initial []) =
        (Inr (),
         \<lparr>results = [\<lparr>source = JStr ''a:1'', destination = JStr ''b:1'',
                       digest = ''b@sha256:0a'', image_size = [], status = Success,
                       error = None\<rparr>],
          successCount = 1,
          trace = [Info (Processing 1 1 ''a:1'' ''b:1'' '' (linux/amd64)''),
                   Info (Pulling ''a:1'' '' (linux/amd64)''),
                   Exec pull_a, Info (Tagging ''b:1''), Exec tag_a,
                   Info (Pushing ''b:1''), Exec push_a,
                   GetExecOutput digest_b, GetExecOutput size_b,
                   Warning (NoImageInfo ''exit code 1''),
                   Info (Mirrored ''a:1'' ''b:1'')]\<rparr>)"
    using z t
      inspect_failure_keeps_success [OF c, where h = "example_host [size_b]"
        and s = "initial []" and ?out1.0 = "[]" and ?out2.0 = "[]" and ?out3.0 = "[]"
        and e = "''exit code 1''" and d = "''b@sha256:0a'' @ [CHR 0x0A]" and n = 1 and i = 0]
    by (simp add: a_args initial_def steps_to_push_def before_pull_def)
  show ?thesis
    by (intro conjI c d z r1 r2)
qed

text \<open>
  C5 as stated does not hold: when the digest query succeeds and the size query fails, the
  outcome has status success and its digest is not empty.
\<close>

theorem size_failure_keeps_digest:
  "docker (example_host [size_b]) [] pull_a = Inr []
   \<and> docker (example_host [size_b]) [pull_a] tag_a = Inr []
   \<and> docker (example_host [size_b]) [pull_a, tag_a] push_a = Inr []
   \<and> docker (example_host [size_b]) [pull_a, tag_a, push_a, digest_b] size_b = Inl ''exit code 1''
   \<and> map status (results (snd (run_iteration (example_host [size_b]) 1 0 (JStr ''a:1'')
        (JStr ''b:1'') (JStr ''linux/amd64'') (initial [])))) = [Success]
   \<and> map digest (results (snd (run_iteration (example_host [size_b]) 1 0 (JStr ''a:1'')
        (JStr ''b:1'') (JStr ''linux/amd64'') (initial [])))) = [''b@sha256:0a'']
   \<and> map digest (results (snd (run_iteration (example_host [size_b]) 1 0 (JStr ''a:1'')
        (JStr ''b:1'') (JStr ''linux/amd64'') (initial [])))) \<noteq> [[]]"
  by code_simp

subsection \<open>C6: the report\<close>

text \<open>
  C6. After validation succeeds the run should always write the serialised outcome list,
  the success count and the total count. The code does not when a source or destination
  cannot be converted to a string (the defect of C2): with a validated list whose second
  image has the source \<^verbatim>\<open>{"toString":1}\<close>, the first image is mirrored and its outcome
  recorded, the second makes lines 54 and 85 throw, the error leaves the loop, lines 97 to
  99 are skipped, and the only thing the run writes is the failure message of line 109.
  (Lemma \<open>report_when_loop_completes\<close> above is the general case: when the loop completes,
  the three outputs are written, followed by \<^verbatim>\<open>Failed to sync k out of n image(s)\<close> exactly
  when \<open>k\<close>, the number of failed outcomes, is not 0.)
\<close>

theorem unprintable_source_skips_outputs:
  "unprintable_last \<noteq> []
   \<and> json_parse (example_host []) unprintable_last = Inr (JArr [img_a, img_t])
   \<and> validate [img_a, img_t] = None
   \<and> map status (results (run (example_host []) unprintable_last [])) = [Success]
   \<and> outputs (trace (run (example_host []) unprintable_last [])) =
       [SetFailed ''Action failed with error: Cannot convert object to primitive value'']"
  by code_simp

subsection \<open>C7: the platform qualifier\<close>



subsection \<open>C8: an element without the required fields\<close>

text \<open>
  C8. An element that lacks a truthy \<^verbatim>\<open>source\<close>, \<^verbatim>\<open>destination\<close> or \<^verbatim>\<open>architecture\<close> should
  fail the run with the message of line 40. For an element that is \<^verbatim>\<open>null\<close> the code does
  not: with the input \<^verbatim>\<open>[null]\<close>, reading \<^verbatim>\<open>image.source\<close> throws a TypeError, and the
  run fails, before any image is processed, with that error's message instead. (Lemma
  \<open>missing_field_fails_run\<close> above is the general case for elements other than \<^verbatim>\<open>null\<close>.)
\<close>

theorem null_element_type_error:
  "json_parse (example_host []) ''[null]'' = Inr (JArr [JNull])
   \<and> run (example_host []) ''[null]'' [] =
       \<lparr>results = [], successCount = 0,
        trace = [SetFailed (''Action failed with error: Cannot read properties of null (reading ''
                   @ [CHR 0x27] @ ''source'' @ [CHR 0x27] @ '')'')]\<rparr>
   \<and> trace (run (example_host []) ''[null]'' []) \<noteq>
       [SetFailed (''Action failed with error: '' @ missing_fields)]"
  by (simp add: run_def run_body_def load_images_def initial_def example_host_def
      example_parse_def cannot_read_def missing_fields_def)

subsection \<open>C9: the two input channels\<close>

text \<open>
  C9. If neither input is supplied, or both are, the run fails with a configuration error
  and does nothing else: no outcome, no output, no docker call.
\<close>

theorem input_channels:
  "(a = [] \<and> b = [] \<longrightarrow>
      run h a b = \<lparr>results = [], successCount = 0,
                   trace = [SetFailed (''Action failed with error: '' @ no_input)]\<rparr>)
   \<and> (a \<noteq> [] \<and> b \<noteq> [] \<longrightarrow>
      run h a b = \<lparr>results = [], successCount = 0,
                   trace = [SetFailed (''Action failed with error: '' @ both_inputs)]\<rparr>)"
  by (simp add: run_def run_body_def initial_def)

theorem input_channels_witness:
  "run (example_host []) [] [] =
     \<lparr>results = [], successCount = 0,
      trace = [SetFailed (''Action failed with error: '' @ no_input)]\<rparr>
   \<and> two_images \<noteq> [] \<and> ''images.json'' \<noteq> []
   \<and> run (example_host []) two_images ''images.json'' =
     \<lparr>results = [], successCount = 0,
      trace = [SetFailed (''Action failed with error: '' @ both_inputs)]\<rparr>"
  using input_channels [of "[]" "[]" "example_host []"]
    input_channels [of two_images "''images.json''" "example_host []"]
  by (simp add: two_images_supplied)

subsection \<open>C10: the empty list\<close>

text \<open>
  C10. If the supplied input, inline or from the file, parses to the empty array, the run
  is accepted: no docker call is made, the outputs are \<^verbatim>\<open>results = []\<close>,
  \<^verbatim>\<open>success-count = 0\<close> and \<^verbatim>\<open>total-count = 0\<close>, and the run is not marked failed.
\<close>

theorem empty_list_accepted:
  "(a \<noteq> [] \<and> b = [] \<and> json_parse h a = Inr (JArr []) \<longrightarrow>
      run h a b =
        \<lparr>results = [], successCount = 0,
         trace = [Info (Starting 0), SetOutput ''results'' ''[]'',
                  SetOutput ''success-count'' ''0'', SetOutput ''total-count'' ''0'',
                  Info (AllMirrored 0)]\<rparr>)
   \<and> (a = [] \<and> b \<noteq> [] \<and> read_file h b = Inr content \<and> json_parse h content = Inr (JArr []) \<longrightarrow>
      run h a b =
        \<lparr>results = [], successCount = 0,
         trace = [Info (ReadingFile b), Info (Starting 0), SetOutput ''results'' ''[]'',
                  SetOutput ''success-count'' ''0'', SetOutput ''total-count'' ''0'',
                  Info (AllMirrored 0)]\<rparr>)"
proof -
  have z: "toString 0 = ''0''"
    by (simp add: toString_def digits.simps)
  show ?thesis
    by (simp add: run_def run_body_def load_images_def initial_def report_def
        stringify_results_def z Let_def)
qed

theorem empty_list_accepted_witness:
  "json_parse (example_host []) ''[]'' = Inr (JArr [])
   \<and> run (example_host []) ''[]'' [] =
        \<lparr>results = [], successCount = 0,
         trace = [Info (Starting 0), SetOutput ''results'' ''[]'',
                  SetOutput ''success-count'' ''0'', SetOutput ''total-count'' ''0'',
                  Info (AllMirrored 0)]\<rparr>
   \<and> read_file (example_host []) ''images.json'' = Inr ''[]''
   \<and> run (example_host []) [] ''images.json'' =
        \<lparr>results = [], successCount = 0,
         trace = [Info (ReadingFile ''images.json''), Info (Starting 0),
                  SetOutput ''results'' ''[]'', SetOutput ''success-count'' ''0'',
                  SetOutput ''total-count'' ''0'', Info (AllMirrored 0)]\<rparr>"
proof -
  have p: "json_parse (example_host []) ''[]'' = Inr (JArr [])"
    "read_file (example_host []) ''images.json'' = Inr ''[]''"
    by (simp_all add: example_host_simps example_parse_def)
  show ?thesis
    using p empty_list_accepted [of "''[]''" "[]" "example_host []"]
      empty_list_accepted [of "[]" "''images.json''" "example_host []" "''[]''"]
    by simp
qed

end
